theory Spec2Isabelle
  imports Main "HOL-Library.Word" "HOL-Library.AList"
begin

section \<open>Wallet sign-in: the three challenge/verify implementations of the repository\<close>

text \<open>
  The repository holds three implementations of the nonce challenge and its verification:
  \<^item> \<^verbatim>\<open>src/auth-nonce.ts\<close>: an in-process \<^verbatim>\<open>Map\<close> keyed by wallet address;
  \<^item> \<^verbatim>\<open>routes/auth.ts\<close> with \<^verbatim>\<open>utils/solana.ts\<close>: the challenge is a row
    \<^verbatim>\<open>nonce:<address>\<close> of the Prisma \<^verbatim>\<open>session\<close> table;
  \<^item> \<^verbatim>\<open>src/server.ts\<close>: no server-side store, the challenge travels in a signed cookie.

  Each route handler is embedded as a function from the request, the values it reads from
  its environment (the clock, the random generator) and the store to the HTTP response and
  the new store. A JavaScript \<^verbatim>\<open>Map\<close> and a database table with a primary key are
  association lists: \<^verbatim>\<open>get\<close> is \<^const>\<open>map_of\<close>, \<^verbatim>\<open>set\<close> and \<^verbatim>\<open>upsert\<close> are
  \<^const>\<open>AList.update\<close> (overwrite in place, else append), \<^verbatim>\<open>delete\<close> is
  \<^const>\<open>AList.delete\<close>. Database calls are taken to succeed, every read of the clock
  within one request returns the same instant (in milliseconds), and request fields are
  strings or absent.
\<close>

subsection \<open>Values shared by the three implementations\<close>

type_synonym bytes = "8 word list"

text \<open>The message of a thrown \<^verbatim>\<open>Error\<close>.\<close>
type_synonym exn = string

text \<open>The claims of a JSON web token, as field name and value.\<close>
type_synonym claims = "(string \<times> string) list"

text \<open>One call of \<^verbatim>\<open>nacl.sign.detached.verify(msg, sig, publicKey)\<close>.\<close>
type_synonym verifier_call = "bytes \<times> bytes \<times> bytes"

text \<open>
  The libraries the handlers call are not part of the repository; they are parameters.
  A result \<open>Inl m\<close> is a thrown error with message \<open>m\<close>.
\<close>

record ext =
  publicKey :: "string \<Rightarrow> exn + bytes"  \<comment> \<open>\<^verbatim>\<open>new PublicKey(a).toBytes()\<close>\<close>
  bs58_decode :: "string \<Rightarrow> exn + bytes"  \<comment> \<open>\<^verbatim>\<open>bs58.decode\<close>\<close>
  buffer_base64 :: "string \<Rightarrow> exn + bytes"  \<comment> \<open>\<^verbatim>\<open>new Uint8Array(Buffer.from(s, "base64"))\<close>\<close>
  atob_bytes :: "string \<Rightarrow> exn + bytes"  \<comment> \<open>\<^verbatim>\<open>Uint8Array.from(atob(s), c => c.charCodeAt(0))\<close>\<close>
  utf8 :: "string \<Rightarrow> bytes"  \<comment> \<open>\<^verbatim>\<open>new TextEncoder().encode\<close>\<close>
  nacl_verify :: "bytes \<Rightarrow> bytes \<Rightarrow> bytes \<Rightarrow> exn + bool"  \<comment> \<open>\<^verbatim>\<open>nacl.sign.detached.verify\<close>\<close>
  jwt_sign :: "claims \<Rightarrow> nat \<Rightarrow> nat \<Rightarrow> string"  \<comment> \<open>claims, lifetime in seconds, clock\<close>
  jwt_verify :: "string \<Rightarrow> nat \<Rightarrow> exn + claims"  \<comment> \<open>token, clock\<close>
  toISOString :: "nat \<Rightarrow> string"  \<comment> \<open>\<^verbatim>\<open>new Date(ms).toISOString()\<close>\<close>

datatype cookie_op = SetCookie string string nat | ClearCookie string

datatype body =
    JError string  \<comment> \<open>\<^verbatim>\<open>{ error }\<close>\<close>
  | JErrorHint string string  \<comment> \<open>\<^verbatim>\<open>{ error, hint }\<close>\<close>
  | JNonce string  \<comment> \<open>\<^verbatim>\<open>{ nonce }\<close>\<close>
  | JOk  \<comment> \<open>\<^verbatim>\<open>{ ok: true }\<close>\<close>
  | JTokenRole string string  \<comment> \<open>\<^verbatim>\<open>{ token, role }\<close>\<close>
  | JChallenge string string string nat  \<comment> \<open>\<^verbatim>\<open>{ wallet, nonce, message, expiresInSec }\<close>\<close>
  | JVerified string string string string string string
      \<comment> \<open>\<^verbatim>\<open>{ ok: true, token, userId, walletId, enc, db, expiresAt }\<close>\<close>

record response =
  status :: nat
  body :: body
  cookie_ops :: "cookie_op list"

definition reply :: "nat \<Rightarrow> body \<Rightarrow> response" where
  "reply st b = \<lparr>status = st, body = b, cookie_ops = []\<rparr>"

text \<open>
  \<^verbatim>\<open>String.prototype.trim\<close>. A string is the list of the bytes of its UTF-8 text, and
  \<open>js_white_space\<close> lists the white space and line terminators of ECMAScript in that
  encoding: U+0009 to U+000D, U+0020, U+00A0, U+1680, U+2000 to U+200A, U+2028, U+2029,
  U+202F, U+205F, U+3000 and U+FEFF. \<open>trim\<close> removes every one of them from both ends.
\<close>

definition js_white_space :: "string list" where
  "js_white_space =
     [ [CHR 0x09], [CHR 0x0A], [CHR 0x0B], [CHR 0x0C], [CHR 0x0D], [CHR 0x20],
       [CHR 0xC2, CHR 0xA0],
       [CHR 0xE1, CHR 0x9A, CHR 0x80],
       [CHR 0xE2, CHR 0x80, CHR 0x80], [CHR 0xE2, CHR 0x80, CHR 0x81],
       [CHR 0xE2, CHR 0x80, CHR 0x82], [CHR 0xE2, CHR 0x80, CHR 0x83],
       [CHR 0xE2, CHR 0x80, CHR 0x84], [CHR 0xE2, CHR 0x80, CHR 0x85],
       [CHR 0xE2, CHR 0x80, CHR 0x86], [CHR 0xE2, CHR 0x80, CHR 0x87],
       [CHR 0xE2, CHR 0x80, CHR 0x88], [CHR 0xE2, CHR 0x80, CHR 0x89],
       [CHR 0xE2, CHR 0x80, CHR 0x8A],
       [CHR 0xE2, CHR 0x80, CHR 0xA8], [CHR 0xE2, CHR 0x80, CHR 0xA9],
       [CHR 0xE2, CHR 0x80, CHR 0xAF],
       [CHR 0xE2, CHR 0x81, CHR 0x9F],
       [CHR 0xE3, CHR 0x80, CHR 0x80],
       [CHR 0xEF, CHR 0xBB, CHR 0xBF] ]"

function strip_prefixes :: "string list \<Rightarrow> string \<Rightarrow> string" where
  "strip_prefixes ps s =
     (case find (\<lambda>p. p \<noteq> [] \<and> take (length p) s = p) ps of
        None \<Rightarrow> s
      | Some p \<Rightarrow> strip_prefixes ps (drop (length p) s))"
  by pat_completeness auto
termination
proof (relation "measure (\<lambda>(ps, s). length s)")
  show "wf (measure (\<lambda>(ps, s). length s))"
    by simp
next
  fix ps :: "string list" and s p :: string
  assume "find (\<lambda>p. p \<noteq> [] \<and> take (length p) s = p) ps = Some p"
  then have ne: "p \<noteq> []" and pre: "take (length p) s = p"
    by (auto simp add: find_Some_iff)
  from pre have "length p \<le> length s"
    by (metis length_take min.cobounded1)
  with ne show "((ps, drop (length p) s), (ps, s)) \<in> measure (\<lambda>(ps, s). length s)"
    by (cases p) auto
qed

declare strip_prefixes.simps [simp del]

definition trim :: "string \<Rightarrow> string" where
  "trim s = rev (strip_prefixes (map rev js_white_space) (rev (strip_prefixes js_white_space s)))"

text \<open>A request field that may be absent; \<open>None\<close> is \<^verbatim>\<open>undefined\<close>.\<close>

definition truthy :: "string option \<Rightarrow> bool" where
  "truthy x = (case x of None \<Rightarrow> False | Some s \<Rightarrow> s \<noteq> [])"

text \<open>\<^verbatim>\<open>a || b\<close>\<close>
definition js_or :: "string option \<Rightarrow> string option \<Rightarrow> string option" where
  "js_or a b = (if truthy a then a else b)"

text \<open>\<^verbatim>\<open>a ?? b\<close>\<close>
definition js_nullish :: "string option \<Rightarrow> string option \<Rightarrow> string option" where
  "js_nullish a b = (case a of None \<Rightarrow> b | Some s \<Rightarrow> Some s)"

text \<open>\<^verbatim>\<open>String(x)\<close>\<close>
definition js_String :: "string option \<Rightarrow> string" where
  "js_String x = (case x of None \<Rightarrow> ''undefined'' | Some s \<Rightarrow> s)"

subsection \<open>\<^verbatim>\<open>src/auth-nonce.ts\<close>: the in-memory store\<close>

definition NONCE_TTL_MS :: nat where
  "NONCE_TTL_MS = 5 * 60 * 1000"

record nonce_rec =
  nonce :: string
  expiresAt :: nat

record wallet =
  wallet_id :: string
  wallet_userId :: string
  wallet_address :: string

text \<open>
  The module-level \<^verbatim>\<open>nonces\<close> map, and the two Prisma tables the verify route reads
  and writes (of a user only the id matters here).
\<close>

record mem_state =
  nonces :: "(string \<times> nonce_rec) list"
  wallets :: "wallet list"
  users :: "string list"

record nonce_req =
  nr_address :: "string option"
  nr_walletAddress :: "string option"

text \<open>
  \<^verbatim>\<open>app.post("/auth/nonce")\<close>. \<open>rnd\<close> is what \<^verbatim>\<open>makeNonce()\<close> returns when it is
  called, \<open>now\<close> what \<^verbatim>\<open>Date.now()\<close> returns. A body that fails the schema (a field
  that is not a string) is answered 400 by the \<^verbatim>\<open>catch\<close> and is outside the request type.
  \<open>nonce_req_address\<close> is line 39, \<open>mem_issue\<close> lines 56 to 58.
\<close>

definition nonce_req_address :: "nonce_req \<Rightarrow> string option" where
  "nonce_req_address req = map_option trim (js_nullish (nr_walletAddress req) (nr_address req))"

definition mem_issue :: "nat \<Rightarrow> string \<Rightarrow> string \<Rightarrow> mem_state \<Rightarrow> response \<times> mem_state" where
  "mem_issue now rnd a st =
     (reply 200 (JNonce rnd),
      st\<lparr>nonces := AList.update a \<lparr>nonce = rnd, expiresAt = now + NONCE_TTL_MS\<rparr> (nonces st)\<rparr>)"

definition mem_post_nonce ::
  "ext \<Rightarrow> nat \<Rightarrow> string \<Rightarrow> nonce_req \<Rightarrow> mem_state \<Rightarrow> response \<times> mem_state" where
  "mem_post_nonce x now rnd req st =
     (let address = nonce_req_address req in
      if \<not> truthy address then (reply 400 (JError ''address required''), st)
      else
        let a = the address in
        (case publicKey x a of
           Inl _ \<Rightarrow> (reply 400 (JError ''Invalid walletAddress''), st)
         | Inr _ \<Rightarrow>
             (case map_of (nonces st) a of
                None \<Rightarrow> mem_issue now rnd a st
              | Some existing \<Rightarrow>
                  if expiresAt existing > now then (reply 200 (JNonce (nonce existing)), st)
                  else mem_issue now rnd a st)))"

record verify_req =
  vr_address :: string
  vr_signature :: string
  vr_nonce :: string

text \<open>The \<^verbatim>\<open>catch\<close> of both routes: \<^verbatim>\<open>{ error: e?.message || "Bad request" }\<close>.\<close>

definition caught400 :: "exn \<Rightarrow> response" where
  "caught400 m = reply 400 (JError (if m = [] then ''Bad request'' else m))"

text \<open>
  Find or create the user of a wallet. \<open>uid\<close> and \<open>wid\<close> are the two
  \<^verbatim>\<open>crypto.randomUUID()\<close> values drawn when a user is created.
\<close>

definition mem_find_or_create ::
  "string \<Rightarrow> string \<Rightarrow> string \<Rightarrow> mem_state \<Rightarrow> string \<times> mem_state" where
  "mem_find_or_create uid wid address st =
     (case find (\<lambda>w. wallet_address w = address) (wallets st) of
        Some existingWallet \<Rightarrow> (wallet_userId existingWallet, st)
      | None \<Rightarrow>
          (uid, st\<lparr>users := users st @ [uid],
                   wallets := wallets st @
                     [\<lparr>wallet_id = wid, wallet_userId = uid, wallet_address = address\<rparr>]\<rparr>))"

text \<open>
  \<^verbatim>\<open>app.post("/auth/verify")\<close>. The schema requires the three fields as strings; a
  body without them is answered 400 by the \<^verbatim>\<open>catch\<close> before the store is read.
\<close>

definition mem_post_verify ::
  "ext \<Rightarrow> nat \<Rightarrow> string \<Rightarrow> string \<Rightarrow> verify_req \<Rightarrow> mem_state \<Rightarrow> response \<times> mem_state" where
  "mem_post_verify x now uid wid req st =
     (let address = vr_address req in
      case publicKey x address of
        Inl m \<Rightarrow> (caught400 m, st)
      | Inr pub \<Rightarrow>
          (case map_of (nonces st) address of
             None \<Rightarrow> (reply 400 (JError ''Nonce not found. Get a new nonce.''), st)
           | Some rec \<Rightarrow>
               if expiresAt rec < now then
                 (reply 400 (JError ''Nonce expired. Get a new nonce.''),
                  st\<lparr>nonces := AList.delete address (nonces st)\<rparr>)
               else if nonce rec \<noteq> vr_nonce req then (reply 400 (JError ''Nonce mismatch''), st)
               else
                 (case bs58_decode x (vr_signature req) of
                    Inl m \<Rightarrow> (caught400 m, st)
                  | Inr sig \<Rightarrow>
                      (case nacl_verify x (utf8 x (vr_nonce req)) sig pub of
                         Inl m \<Rightarrow> (caught400 m, st)
                       | Inr ok \<Rightarrow>
                           if \<not> ok then (reply 401 (JError ''Invalid signature''), st)
                           else
                             let (userId, st1) = mem_find_or_create uid wid address st;
                                 token = jwt_sign x [(''sub'', userId), (''addr'', address)]
                                           (7 * 24 * 3600) now
                             in (\<lparr>status = 200, body = JOk,
                                  cookie_ops = [SetCookie ''auth'' token (7 * 24 * 3600 * 1000)]\<rparr>,
                                 st1\<lparr>nonces := AList.delete address (nonces st1)\<rparr>)))))"

subsection \<open>\<^verbatim>\<open>utils/solana.ts\<close>: the two signature helpers\<close>

text \<open>
  Each helper returns what the source returns or throws, together with the calls of the
  detached-signature verifier it made, in order.
\<close>

definition verifySolanaSignatureBase58 ::
  "ext \<Rightarrow> string \<Rightarrow> string \<Rightarrow> string \<Rightarrow> (exn + bool) \<times> verifier_call list" where
  "verifySolanaSignatureBase58 x address message signature58 =
     (case publicKey x address of
        Inl m \<Rightarrow> (Inl m, [])
      | Inr pub \<Rightarrow>
          let msg = utf8 x message in
          (case bs58_decode x signature58 of
             Inl m \<Rightarrow> (Inl m, [])
           | Inr sig \<Rightarrow> (nacl_verify x msg sig pub, [(msg, sig, pub)])))"

definition verifySolanaSignatureBase64 ::
  "ext \<Rightarrow> string \<Rightarrow> string \<Rightarrow> string \<Rightarrow> (exn + bool) \<times> verifier_call list" where
  "verifySolanaSignatureBase64 x address message signatureB64 =
     (case publicKey x address of
        Inl m \<Rightarrow> (Inl m, [])
      | Inr pub \<Rightarrow>
          let msg = utf8 x message in
          (case atob_bytes x signatureB64 of
             Inl m \<Rightarrow> (Inl m, [])
           | Inr sig \<Rightarrow> (nacl_verify x msg sig pub, [(msg, sig, pub)])))"

subsection \<open>\<^verbatim>\<open>routes/auth.ts\<close>: the challenge as a row of the session table\<close>

text \<open>The process environment the routes read.\<close>

record config =
  APP_NAME :: string
  JWT_SECRET :: string
  ADMIN_ADDRESSES :: string

record session =
  session_userId :: string
  jwtId :: string
  session_expiresAt :: nat
  session_createdAt :: nat

text \<open>
  The tables \<^verbatim>\<open>user\<close> (id to creation and update time) and \<^verbatim>\<open>session\<close> (id to row).
\<close>

record db_state =
  db_users :: "(string \<times> nat \<times> nat) list"
  db_sessions :: "(string \<times> session) list"

definition digit_char :: "nat \<Rightarrow> char" where
  "digit_char d = char_of (48 + d)"

fun show_nat :: "nat \<Rightarrow> string" where
  "show_nat n = (if n < 10 then [digit_char n] else show_nat (n div 10) @ [digit_char (n mod 10)])"

declare show_nat.simps [simp del]

fun split_on :: "char \<Rightarrow> string \<Rightarrow> string list" where
  "split_on c [] = [[]]"
| "split_on c (a # as) =
     (if a = c then [] # split_on c as
      else (case split_on c as of [] \<Rightarrow> [[a]] | y # ys \<Rightarrow> (a # y) # ys))"

definition isAdmin :: "config \<Rightarrow> string \<Rightarrow> bool" where
  "isAdmin cfg address =
     (address \<in> set (filter (\<lambda>s. s \<noteq> []) (map trim (split_on CHR '','' (ADMIN_ADDRESSES cfg)))))"

definition nl :: string where
  "nl = [CHR 0x0A]"

text \<open>
  \<open>hex\<close> is \<^verbatim>\<open>crypto.randomBytes(16).toString('hex')\<close>; every clock read of one call
  returns \<open>now\<close>.
\<close>

definition createAndStoreNonce :: "nat \<Rightarrow> string \<Rightarrow> string \<Rightarrow> db_state \<Rightarrow> string \<times> db_state" where
  "createAndStoreNonce now hex address db =
     (let nonce = ''Sign in to FST'' @ nl @ ''Address: '' @ address @ nl @
                  ''Nonce: '' @ hex @ nl @ ''TS:'' @ show_nat now;
          users' = (case map_of (db_users db) address of
                      Some (created, _) \<Rightarrow> AList.update address (created, now) (db_users db)
                    | None \<Rightarrow> AList.update address (now, now) (db_users db));
          sid = ''nonce:'' @ address;
          sessions' = (case map_of (db_sessions db) sid of
                         Some s \<Rightarrow>
                           AList.update sid
                             (s\<lparr>jwtId := nonce, session_expiresAt := now + 5 * 60000\<rparr>)
                             (db_sessions db)
                       | None \<Rightarrow>
                           AList.update sid
                             \<lparr>session_userId = address, jwtId = nonce,
                              session_expiresAt = now + 5 * 60000, session_createdAt = now\<rparr>
                             (db_sessions db))
      in (nonce, \<lparr>db_users = users', db_sessions = sessions'\<rparr>))"

text \<open>\<^verbatim>\<open>r.get('/nonce')\<close>, with the query parameter \<^verbatim>\<open>address\<close>.\<close>

definition r_get_nonce :: "nat \<Rightarrow> string \<Rightarrow> string option \<Rightarrow> db_state \<Rightarrow> response \<times> db_state" where
  "r_get_nonce now hex q_address db =
     (let address = trim (js_String (js_or q_address (Some []))) in
      if address = [] then (reply 400 (JError ''address is required''), db)
      else let (nonce, db') = createAndStoreNonce now hex address db
           in (reply 200 (JNonce nonce), db'))"

text \<open>\<^verbatim>\<open>r.post('/nonce')\<close>, with the body field \<^verbatim>\<open>walletAddress\<close>.\<close>

definition r_post_nonce :: "nat \<Rightarrow> string \<Rightarrow> string option \<Rightarrow> db_state \<Rightarrow> response \<times> db_state" where
  "r_post_nonce now hex b_walletAddress db =
     (let address = trim (js_String (js_or b_walletAddress (Some []))) in
      if address = [] then (reply 400 (JError ''walletAddress is required''), db)
      else let (nonce, db') = createAndStoreNonce now hex address db
           in (reply 200 (JNonce nonce), db'))"

record r_verify_req =
  rv_address :: "string option"
  rv_nonce :: "string option"
  rv_signatureBase64 :: "string option"
  rv_signature58 :: "string option"

text \<open>
  The \<^verbatim>\<open>try\<close> block around the two helpers: an exception leaves the block with
  \<^verbatim>\<open>ok\<close> still false, so a throwing base64 attempt is not followed by the base58 one.
\<close>

definition try_signatures ::
  "ext \<Rightarrow> string \<Rightarrow> string \<Rightarrow> string option \<Rightarrow> string option \<Rightarrow> bool \<times> verifier_call list" where
  "try_signatures x addr n signatureBase64 signature58 =
     (let (r64, c64) = (if truthy signatureBase64
                        then verifySolanaSignatureBase64 x addr n (js_String signatureBase64)
                        else (Inr False, []))
      in case r64 of
           Inl _ \<Rightarrow> (False, c64)
         | Inr ok \<Rightarrow>
             if \<not> ok \<and> truthy signature58 then
               (case verifySolanaSignatureBase58 x addr n (js_String signature58) of
                  (Inl _, c58) \<Rightarrow> (False, c64 @ c58)
                | (Inr ok', c58) \<Rightarrow> (ok', c64 @ c58))
             else (ok, c64))"

text \<open>\<^verbatim>\<open>issueJWT\<close> of \<^verbatim>\<open>middleware/auth.ts\<close>\<close>

definition issueJWT :: "config \<Rightarrow> ext \<Rightarrow> nat \<Rightarrow> claims \<Rightarrow> exn + string" where
  "issueJWT cfg x now payload =
     (if JWT_SECRET cfg = [] then Inl ''Missing JWT_SECRET''
      else Inr (jwt_sign x payload (7 * 24 * 3600) now))"

text \<open>Line 99 of \<^verbatim>\<open>r.post('/verify')\<close>: the fields the route requires.\<close>

definition hasAll :: "r_verify_req \<Rightarrow> bool" where
  "hasAll req = (truthy (rv_address req) \<and> truthy (rv_nonce req) \<and>
                 (truthy (rv_signatureBase64 req) \<or> truthy (rv_signature58 req)))"

text \<open>\<^verbatim>\<open>r.post('/verify')\<close>\<close>

definition r_post_verify ::
  "config \<Rightarrow> ext \<Rightarrow> nat \<Rightarrow> r_verify_req \<Rightarrow> db_state \<Rightarrow>
     response \<times> db_state \<times> verifier_call list" where
  "r_post_verify cfg x now req db =
     (if \<not> hasAll req then
        (reply 400 (JError ''address, nonce and signature are required''), db, [])
      else
        let addr = js_String (rv_address req);
            n = js_String (rv_nonce req)
        in
        (case map_of (db_sessions db) (''nonce:'' @ addr) of
           None \<Rightarrow> (reply 400 (JError ''nonce invalid or expired''), db, [])
         | Some stored \<Rightarrow>
             if jwtId stored \<noteq> n then (reply 400 (JError ''nonce invalid or expired''), db, [])
             else if session_expiresAt stored < now then
               (reply 400 (JError ''nonce invalid or expired''), db, [])
             else
               let (ok, calls) = try_signatures x addr n (rv_signatureBase64 req) (rv_signature58 req)
               in
               if \<not> ok then (reply 400 (JError ''invalid signature''), db, calls)
               else
                 let db' = db\<lparr>db_sessions := AList.delete (''nonce:'' @ addr) (db_sessions db)\<rparr>;
                     admin = isAdmin cfg addr;
                     payload = [(''uid'', addr), (''address'', addr)] @
                               (if admin then [(''role'', ''ADMIN'')] else [])
                 in
                 (case issueJWT cfg x now payload of
                    Inl _ \<Rightarrow> (reply 500 (JError ''verify failed''), db', calls)
                  | Inr token \<Rightarrow>
                      (reply 200 (JTokenRole token (if admin then ''ADMIN'' else ''USER'')),
                       db', calls))))"

subsection \<open>\<^verbatim>\<open>src/server.ts\<close>: the challenge in a signed cookie\<close>

text \<open>
  \<^verbatim>\<open>app.get("/auth/nonce")\<close>. \<open>uuid\<close> (the nonce) and \<open>jti\<close> are the two \<^verbatim>\<open>randomUUID()\<close>
  values, \<open>q_wallet\<close> the query parameter \<^verbatim>\<open>wallet\<close>; \<open>srv_challenge_message\<close>
  is the text of lines 166 to 172.
\<close>

definition srv_challenge_message :: "config \<Rightarrow> ext \<Rightarrow> nat \<Rightarrow> string \<Rightarrow> string \<Rightarrow> string" where
  "srv_challenge_message cfg x now wallet uuid =
     APP_NAME cfg @ '' login'' @ nl @ nl @
     ''Wallet: '' @ wallet @ nl @
     ''Nonce: '' @ uuid @ nl @
     ''Issued At: '' @ toISOString x now @ nl @
     nl @ ''By signing, you prove ownership of this wallet.''"

definition srv_get_nonce ::
  "config \<Rightarrow> ext \<Rightarrow> nat \<Rightarrow> string \<Rightarrow> string \<Rightarrow> string option \<Rightarrow> response" where
  "srv_get_nonce cfg x now uuid jti q_wallet =
     (let wallet = trim (js_String (js_or q_wallet (Some []))) in
      if wallet = [] then reply 400 (JError ''Missing wallet param'')
      else
        let message = srv_challenge_message cfg x now wallet uuid;
            token = jwt_sign x [(''t'', ''nonce''), (''wallet'', wallet), (''nonce'', uuid),
                                (''msg'', message), (''jti'', jti)] (5 * 60) now
        in \<lparr>status = 200, body = JChallenge wallet uuid message 300,
            cookie_ops = [SetCookie ''nonce'' token (5 * 60 * 1000)]\<rparr>)"

text \<open>
  The verify request: the fields of the parsed body and of the query string, by name, and
  the \<^verbatim>\<open>nonce\<close> cookie.
\<close>

record srv_req =
  sv_body :: "string \<Rightarrow> string option"
  sv_query :: "string \<Rightarrow> string option"
  sv_nonce_cookie :: "string option"

text \<open>Lines 193 to 196 and line 199.\<close>

definition srv_walletAddress :: "srv_req \<Rightarrow> string" where
  "srv_walletAddress req =
     (let b = sv_body req; q = sv_query req in
      trim (js_String (js_or (b ''walletAddress'') (js_or (b ''address'') (js_or (b ''wallet'')
              (js_or (q ''walletAddress'') (js_or (q ''address'')
                 (js_or (q ''wallet'') (Some [])))))))))"

definition srv_bodyMessage :: "srv_req \<Rightarrow> string option" where
  "srv_bodyMessage req =
     (let m = js_or (sv_body req ''message'') (sv_query req ''message'')
      in if truthy m then Some (js_String m) else None)"

text \<open>
  Lines 203 to 216: the message comes from the cookie when the cookie verifies, from the
  body otherwise. \<open>Inl\<close> is an early \<^verbatim>\<open>return\<close>.
\<close>

definition srv_message :: "ext \<Rightarrow> nat \<Rightarrow> srv_req \<Rightarrow> string \<Rightarrow> response + string" where
  "srv_message x now req walletAddress =
     (let bodyMessage = srv_bodyMessage req;
          fromCookie =
            (if truthy (sv_nonce_cookie req) then
               (case jwt_verify x (js_String (sv_nonce_cookie req)) now of
                  Inl _ \<Rightarrow> Inr bodyMessage
                | Inr data \<Rightarrow>
                    if map_of data ''t'' \<noteq> Some ''nonce''
                    then Inl (reply 400 (JError ''Bad nonce payload''))
                    else if js_String (map_of data ''wallet'') \<noteq> walletAddress
                    then Inl (reply 400 (JError ''Wallet mismatch with nonce''))
                    else Inr (map_of data ''msg''))
             else Inr bodyMessage)
      in case fromCookie of
           Inl r \<Rightarrow> Inl r
         | Inr message \<Rightarrow>
             if \<not> truthy message then Inl (reply 400 (JError ''Missing nonce message''))
             else Inr (js_String message))"

text \<open>Lines 218 to 231: base64 is preferred, base58 is the fallback.\<close>

definition srv_decode_signature :: "ext \<Rightarrow> srv_req \<Rightarrow> response + bytes \<times> string" where
  "srv_decode_signature x req =
     (let b = sv_body req; q = sv_query req;
          signatureBase58 =
            trim (js_String (js_or (b ''signatureBase58'') (js_or (q ''signatureBase58'') (Some []))));
          signatureBase64 =
            trim (js_String (js_or (b ''signature'') (js_or (b ''sig'')
                    (js_or (q ''signature'') (js_or (q ''sig'') (Some []))))))
      in
      if signatureBase64 \<noteq> [] then
        (case buffer_base64 x signatureBase64 of
           Inl _ \<Rightarrow> Inl (reply 400 (JError ''Bad signature (base64)''))
         | Inr sig \<Rightarrow> Inr (sig, ''base64''))
      else if signatureBase58 \<noteq> [] then
        (case bs58_decode x signatureBase58 of
           Inl _ \<Rightarrow> Inl (reply 400 (JError ''Bad signature (base58)''))
         | Inr sig \<Rightarrow> Inr (sig, ''base58''))
      else Inl (reply 400 (JErrorHint ''Missing signature''
                  ''Send 'signature' (Base64) or 'signatureBase58'.'')))"

text \<open>
  \<^verbatim>\<open>app.post("/auth/verify")\<close>. \<open>jti\<close>, \<open>userId\<close> and \<open>walletId\<close> are the three
  \<^verbatim>\<open>randomUUID()\<close> values; \<open>db\<close> is the status string the optional persistence block
  reports (\<^verbatim>\<open>skipped\<close>, \<^verbatim>\<open>ok\<close> or \<^verbatim>\<open>error\<close>), which nothing else depends on.
  The second component lists the calls of the detached-signature verifier;
  \<open>srv_auth_token\<close> is the token of lines 245 to 248, signed for 30 days.
\<close>

definition srv_auth_token :: "ext \<Rightarrow> nat \<Rightarrow> string \<Rightarrow> string \<Rightarrow> string \<Rightarrow> string" where
  "srv_auth_token x now jti userId walletId =
     jwt_sign x [(''sub'', userId), (''wid'', walletId), (''t'', ''auth''), (''jti'', jti)]
       (30 * 24 * 3600) now"

definition srv_post_verify ::
  "ext \<Rightarrow> nat \<Rightarrow> string \<Rightarrow> string \<Rightarrow> string \<Rightarrow> string \<Rightarrow> srv_req \<Rightarrow>
     response \<times> verifier_call list" where
  "srv_post_verify x now jti userId walletId db req =
     (let walletAddress = srv_walletAddress req in
      if walletAddress = [] then (reply 400 (JError ''walletAddress is required''), [])
      else
        (case srv_message x now req walletAddress of
           Inl r \<Rightarrow> (r, [])
         | Inr message \<Rightarrow>
             (case srv_decode_signature x req of
                Inl r \<Rightarrow> (r, [])
              | Inr (sig, encUsed) \<Rightarrow>
                  if length sig < 64 then (reply 400 (JError ''Signature length invalid''), [])
                  else
                    (case bs58_decode x walletAddress of
                       Inl _ \<Rightarrow> (reply 400 (JError ''walletAddress must be base58''), [])
                     | Inr pubkey \<Rightarrow>
                         let call = (utf8 x message, sig, pubkey) in
                         (case nacl_verify x (utf8 x message) sig pubkey of
                            Inl _ \<Rightarrow> (reply 500 (JError ''Internal error''), [call])
                          | Inr ok \<Rightarrow>
                              if \<not> ok then (reply 401 (JError ''Invalid signature''), [call])
                              else
                                let authToken = srv_auth_token x now jti userId walletId;
                                    expiresAt = toISOString x (now + 30 * 24 * 60 * 60 * 1000)
                                in (\<lparr>status = 200,
                                     body = JVerified authToken userId walletId encUsed db expiresAt,
                                     cookie_ops =
                                       [ClearCookie ''nonce'',
                                        SetCookie ''auth'' authToken (30 * 24 * 60 * 60 * 1000)]\<rparr>,
                                    [call]))))))"

subsection \<open>Operation sequences on the two stores\<close>

text \<open>The liveness test of the nonce route (line 52): a record exists and has not expired.\<close>

definition mem_live :: "mem_state \<Rightarrow> string \<Rightarrow> nat \<Rightarrow> bool" where
  "mem_live st a now =
     (case map_of (nonces st) a of None \<Rightarrow> False | Some existing \<Rightarrow> expiresAt existing > now)"

text \<open>The \<^verbatim>\<open>nonces\<close> map of a freshly loaded module.\<close>

definition mem_init :: mem_state where
  "mem_init = \<lparr>nonces = [], wallets = [], users = []\<rparr>"

datatype mem_op =
    MemNonce nat string nonce_req
  | MemVerify nat string string verify_req

fun mem_step :: "ext \<Rightarrow> mem_op \<Rightarrow> mem_state \<Rightarrow> mem_state" where
  "mem_step x (MemNonce now rnd req) st = snd (mem_post_nonce x now rnd req st)"
| "mem_step x (MemVerify now uid wid req) st = snd (mem_post_verify x now uid wid req st)"

fun mem_run :: "ext \<Rightarrow> mem_op list \<Rightarrow> mem_state \<Rightarrow> mem_state" where
  "mem_run x [] st = st"
| "mem_run x (op # ops) st = mem_run x ops (mem_step x op st)"

datatype db_op =
    DbGetNonce nat string "string option"
  | DbPostNonce nat string "string option"
  | DbVerify nat r_verify_req

fun db_step :: "config \<Rightarrow> ext \<Rightarrow> db_op \<Rightarrow> db_state \<Rightarrow> db_state" where
  "db_step cfg x (DbGetNonce now hex q) db = snd (r_get_nonce now hex q db)"
| "db_step cfg x (DbPostNonce now hex b) db = snd (r_post_nonce now hex b db)"
| "db_step cfg x (DbVerify now req) db = fst (snd (r_post_verify cfg x now req db))"

fun db_run :: "config \<Rightarrow> ext \<Rightarrow> db_op list \<Rightarrow> db_state \<Rightarrow> db_state" where
  "db_run cfg x [] db = db"
| "db_run cfg x (op # ops) db = db_run cfg x ops (db_step cfg x op db)"

text \<open>The number of records a store holds under one key.\<close>

definition held :: "('k \<times> 'v) list \<Rightarrow> 'k \<Rightarrow> nat" where
  "held al k = length (filter (\<lambda>kv. fst kv = k) al)"

text \<open>
  What a request names by a list of alternative fields: the first field that is present and
  not empty, or the empty string when there is none.
\<close>

fun first_truthy :: "string option list \<Rightarrow> string" where
  "first_truthy [] = []"
| "first_truthy (None # fs) = first_truthy fs"
| "first_truthy (Some s # fs) = (if s \<noteq> [] then s else first_truthy fs)"

subsection \<open>A concrete instance of the libraries, for evaluation\<close>

text \<open>
  Base58 with the Bitcoin alphabet, as \<^verbatim>\<open>bs58\<close> decodes it: every leading \<^verbatim>\<open>1\<close> is a
  zero byte, the rest is a big-endian number.
\<close>

definition b58_alphabet :: string where
  "b58_alphabet = ''123456789ABCDEFGHJKLMNPQRSTUVWXYZabcdefghijkmnopqrstuvwxyz''"

definition b64_alphabet :: string where
  "b64_alphabet = ''ABCDEFGHIJKLMNOPQRSTUVWXYZabcdefghijklmnopqrstuvwxyz0123456789+/''"

fun index_of :: "char \<Rightarrow> string \<Rightarrow> nat option" where
  "index_of c [] = None"
| "index_of c (a # as) = (if a = c then Some 0 else map_option Suc (index_of c as))"

fun b58_digits :: "string \<Rightarrow> nat list option" where
  "b58_digits [] = Some []"
| "b58_digits (c # cs) =
     (case index_of c b58_alphabet of
        None \<Rightarrow> None
      | Some d \<Rightarrow> map_option (\<lambda>ds. d # ds) (b58_digits cs))"

fun nat_bytes :: "nat \<Rightarrow> bytes" where
  "nat_bytes n = (if n = 0 then [] else nat_bytes (n div 256) @ [word_of_nat (n mod 256)])"

declare nat_bytes.simps [simp del]

definition demo_bs58 :: "string \<Rightarrow> exn + bytes" where
  "demo_bs58 s =
     (case b58_digits s of
        None \<Rightarrow> Inl ''Non-base58 character''
      | Some ds \<Rightarrow>
          Inr (replicate (length (takeWhile (\<lambda>d. d = 0) ds)) 0 @
               nat_bytes (foldl (\<lambda>acc d. acc * 58 + d) 0 ds)))"

text \<open>
  Base64: four digits of six bits are three bytes. \<^verbatim>\<open>atob\<close> throws on a character
  outside the alphabet; \<^verbatim>\<open>Buffer.from\<close> skips it.
\<close>

fun b64_groups :: "nat list \<Rightarrow> bytes" where
  "b64_groups (a # b # c # d # rest) =
     [word_of_nat (a * 4 + b div 16), word_of_nat ((b mod 16) * 16 + c div 4),
      word_of_nat ((c mod 4) * 64 + d)] @ b64_groups rest"
| "b64_groups [a, b, c] = [word_of_nat (a * 4 + b div 16), word_of_nat ((b mod 16) * 16 + c div 4)]"
| "b64_groups [a, b] = [word_of_nat (a * 4 + b div 16)]"
| "b64_groups _ = []"

definition demo_atob :: "string \<Rightarrow> exn + bytes" where
  "demo_atob s =
     (let ds = map (\<lambda>c. index_of c b64_alphabet) (takeWhile (\<lambda>c. c \<noteq> CHR ''='') s)
      in if None \<in> set ds then Inl ''The string to be decoded is not correctly encoded.''
         else Inr (b64_groups (map the ds)))"

definition demo_buffer_base64 :: "string \<Rightarrow> exn + bytes" where
  "demo_buffer_base64 s =
     Inr (b64_groups (List.map_filter (\<lambda>c. index_of c b64_alphabet)
            (takeWhile (\<lambda>c. c \<noteq> CHR ''='') s)))"

text \<open>A public key is the base58 text of exactly 32 bytes.\<close>

definition demo_publicKey :: "string \<Rightarrow> exn + bytes" where
  "demo_publicKey a =
     (case demo_bs58 a of
        Inl m \<Rightarrow> Inl m
      | Inr bs \<Rightarrow> if length bs = 32 then Inr bs else Inl ''Invalid public key input'')"

text \<open>
  A stand-in for the signature check with the size checks of \<^verbatim>\<open>tweetnacl\<close>: it throws
  unless the signature has 64 bytes and the key 32, and then accepts the signatures whose
  last byte is zero.
\<close>

definition demo_verify :: "bytes \<Rightarrow> bytes \<Rightarrow> bytes \<Rightarrow> exn + bool" where
  "demo_verify msg sig pk =
     (if length sig \<noteq> 64 then Inl ''bad signature size''
      else if length pk \<noteq> 32 then Inl ''bad public key size''
      else Inr (last sig = 0))"

definition demo_ext :: ext where
  "demo_ext =
     \<lparr>publicKey = demo_publicKey,
      bs58_decode = demo_bs58,
      buffer_base64 = demo_buffer_base64,
      atob_bytes = demo_atob,
      utf8 = map (\<lambda>c. word_of_nat (of_char c)),
      nacl_verify = demo_verify,
      jwt_sign = (\<lambda>cl ttl now. concat (map (\<lambda>kv. fst kv @ ''='' @ snd kv @ '';'') cl)),
      jwt_verify = (\<lambda>tok now. Inl ''jwt malformed''),
      toISOString = show_nat\<rparr>"

definition demo_cfg :: config where
  "demo_cfg = \<lparr>APP_NAME = ''FST'', JWT_SECRET = ''secret'', ADMIN_ADDRESSES = []\<rparr>"

text \<open>
  The address of 32 zero bytes; signatures of 64 bytes ending in 0 and in 2, and of one byte.
\<close>

definition demo_addr :: string where
  "demo_addr = replicate 32 CHR ''1''"

definition sig_zero :: string where
  "sig_zero = replicate 64 CHR ''1''"

definition sig_two :: string where
  "sig_two = replicate 63 CHR ''1'' @ ''3''"

definition sig_short :: string where
  "sig_short = ''1''"

text \<open>The base64 text of one zero byte.\<close>

definition sig_short64 :: string where
  "sig_short64 = ''AA==''"

text \<open>
  A store of each kind holding one challenge \<^verbatim>\<open>n1\<close> for that address, expiring at
  300000 ms, and the requests that answer it.
\<close>

definition demo_mem :: mem_state where
  "demo_mem = \<lparr>nonces = [(demo_addr, \<lparr>nonce = ''n1'', expiresAt = 300000\<rparr>)],
               wallets = [], users = []\<rparr>"

definition demo_vreq :: "string \<Rightarrow> string \<Rightarrow> verify_req" where
  "demo_vreq sg n = \<lparr>vr_address = demo_addr, vr_signature = sg, vr_nonce = n\<rparr>"

definition demo_db :: db_state where
  "demo_db =
     \<lparr>db_users = [(demo_addr, 0, 0)],
      db_sessions = [(''nonce:'' @ demo_addr,
                      \<lparr>session_userId = demo_addr, jwtId = ''n1'',
                       session_expiresAt = 300000, session_createdAt = 0\<rparr>)]\<rparr>"

definition demo_rreq :: "string \<Rightarrow> string \<Rightarrow> r_verify_req" where
  "demo_rreq sg n = \<lparr>rv_address = Some demo_addr, rv_nonce = Some n,
                     rv_signatureBase64 = None, rv_signature58 = Some sg\<rparr>"

definition demo_nreq :: "string \<Rightarrow> nonce_req" where
  "demo_nreq a = \<lparr>nr_address = Some a, nr_walletAddress = None\<rparr>"

text \<open>A server.ts verify request with body fields only and no cookie.\<close>

definition demo_sreq :: "string \<Rightarrow> string \<Rightarrow> srv_req" where
  "demo_sreq sg m =
     \<lparr>sv_body = map_of [(''walletAddress'', demo_addr), (''signatureBase58'', sg), (''message'', m)],
      sv_query = (\<lambda>_. None),
      sv_nonce_cookie = None\<rparr>"

text \<open>The same request with a nonce cookie that is no token.\<close>

definition demo_sreq_stale :: "string \<Rightarrow> string \<Rightarrow> srv_req" where
  "demo_sreq_stale sg m = (demo_sreq sg m)\<lparr>sv_nonce_cookie := Some ''stale''\<rparr>"

text \<open>
  The base64 text of 64 zero bytes, and a request that carries its signature in the body
  field \<^verbatim>\<open>signature\<close>.
\<close>

definition sig_zero64 :: string where
  "sig_zero64 = replicate 86 CHR ''A'' @ ''==''"

definition demo_sreq64 :: "string \<Rightarrow> string \<Rightarrow> srv_req" where
  "demo_sreq64 sg m =
     \<lparr>sv_body = map_of [(''walletAddress'', demo_addr), (''signature'', sg), (''message'', m)],
      sv_query = (\<lambda>_. None),
      sv_nonce_cookie = None\<rparr>"

text \<open>The two tables empty, and an address that is not base58.\<close>

definition db_init :: db_state where
  "db_init = \<lparr>db_users = [], db_sessions = []\<rparr>"

definition bad_addr :: string where
  "bad_addr = ''0O''"

section \<open>Properties\<close>

subsection \<open>Evaluation of the concrete instance\<close>

lemma status_reply [simp]:
  "status (reply s b) = s" "body (reply s b) = b" "cookie_ops (reply s b) = []"
  by (simp_all add: reply_def)

lemma status_caught400 [simp]: "status (caught400 m) = 400"
  by (simp add: caught400_def)

lemma demo_pk: "demo_publicKey demo_addr = Inr (replicate 32 0)"
  by code_simp

lemma demo_sig_zero: "demo_bs58 sig_zero = Inr (replicate 64 0)"
  by code_simp

lemma demo_sig_two: "demo_bs58 sig_two = Inr (replicate 63 0 @ [2])"
  by code_simp

lemma demo_sig_short: "demo_bs58 sig_short = Inr [0]"
  by code_simp

lemma demo_addr_58: "demo_bs58 demo_addr = Inr (replicate 32 0)"
  by code_simp

lemma demo_addr_trim: "trim demo_addr = demo_addr"
  by code_simp

lemma demo_addr_ne: "demo_addr \<noteq> []"
  by code_simp

lemma demo_sig_trim: "trim sig_zero = sig_zero" "trim sig_two = sig_two" "trim sig_short = sig_short"
  by code_simp+

lemma demo_sig_ne: "sig_zero \<noteq> []" "sig_two \<noteq> []" "sig_short \<noteq> []"
  by code_simp+

lemma demo_verify_zero: "demo_verify m (replicate 64 0) (replicate 32 0) = Inr True"
  by (simp add: demo_verify_def)

lemma demo_verify_two: "demo_verify m (replicate 63 0 @ [2]) (replicate 32 0) = Inr False"
  by (simp add: demo_verify_def)

lemma demo_verify_short: "demo_verify m [0] (replicate 32 0) = Inl ''bad signature size''"
  by (simp add: demo_verify_def)

lemmas demo_eval =
  demo_pk demo_sig_zero demo_sig_two demo_sig_short demo_addr_58 demo_addr_trim demo_addr_ne
  demo_sig_trim demo_sig_ne demo_verify_zero demo_verify_two demo_verify_short

lemma demo_try_zero:
  "try_signatures demo_ext demo_addr n None (Some sig_zero) =
     (True, [(utf8 demo_ext n, replicate 64 0, replicate 32 0)])"
  by (simp add: try_signatures_def verifySolanaSignatureBase58_def truthy_def js_String_def
        demo_ext_def demo_eval)

lemma demo_try_two:
  "try_signatures demo_ext demo_addr n None (Some sig_two) =
     (False, [(utf8 demo_ext n, replicate 63 0 @ [2], replicate 32 0)])"
  by (simp add: try_signatures_def verifySolanaSignatureBase58_def truthy_def js_String_def
        demo_ext_def demo_eval)

lemma demo_ext_sel [simp]:
  "publicKey demo_ext = demo_publicKey" "bs58_decode demo_ext = demo_bs58"
  "nacl_verify demo_ext = demo_verify" "jwt_verify demo_ext = (\<lambda>tok now. Inl ''jwt malformed'')"
  "atob_bytes demo_ext = demo_atob" "buffer_base64 demo_ext = demo_buffer_base64"
  by (simp_all add: demo_ext_def)

lemma demo_sig_short64: "demo_atob sig_short64 = Inr [0]"
  by code_simp

lemma trim_Nil [simp]: "trim [] = []"
  by (simp add: trim_def strip_prefixes.simps js_white_space_def)

lemma demo_vreq_sel [simp]:
  "vr_address (demo_vreq sg n) = demo_addr" "vr_signature (demo_vreq sg n) = sg"
  "vr_nonce (demo_vreq sg n) = n"
  by (simp_all add: demo_vreq_def)

lemma demo_rreq_sel [simp]:
  "rv_address (demo_rreq sg n) = Some demo_addr" "rv_nonce (demo_rreq sg n) = Some n"
  "rv_signatureBase64 (demo_rreq sg n) = None" "rv_signature58 (demo_rreq sg n) = Some sg"
  by (simp_all add: demo_rreq_def)

lemma js_String_Some [simp]: "js_String (Some s) = s"
  by (simp add: js_String_def)

lemma demo_hasAll: "hasAll (demo_rreq sig_zero ''n1'')" "hasAll (demo_rreq sig_two ''n1'')"
  by (simp_all add: hasAll_def demo_rreq_def truthy_def demo_eval)

subsection \<open>The verify routes, branch by branch\<close>

lemma nonces_find_or_create [simp]:
  "nonces (snd (mem_find_or_create uid wid a st)) = nonces st"
  by (simp add: mem_find_or_create_def split: option.splits)



lemma mem_verify_success:
  assumes "publicKey x (vr_address req) = Inr pub"
    and "map_of (nonces st) (vr_address req) = Some rec"
    and "\<not> expiresAt rec < now"
    and "nonce rec = vr_nonce req"
    and "bs58_decode x (vr_signature req) = Inr sig"
    and "nacl_verify x (utf8 x (vr_nonce req)) sig pub = Inr True"
  shows "status (fst (mem_post_verify x now uid wid req st)) = 200"
  using assms by (simp add: mem_post_verify_def Let_def split_beta)



lemma r_verify_success:
  assumes "hasAll rq"
    and "map_of (db_sessions db) (''nonce:'' @ js_String (rv_address rq)) = Some stored"
    and "jwtId stored = js_String (rv_nonce rq)"
    and "\<not> session_expiresAt stored < now"
    and "fst (try_signatures x (js_String (rv_address rq)) (js_String (rv_nonce rq))
                (rv_signatureBase64 rq) (rv_signature58 rq))"
    and "JWT_SECRET cfg \<noteq> []"
  shows "status (fst (r_post_verify cfg x now rq db)) = 200"
  using assms by (simp add: r_post_verify_def Let_def split_beta issueJWT_def)



subsection \<open>One-time use\<close>



subsection \<open>The signature is checked before the challenge is consumed\<close>

lemma mem_verify_signature_stage:
  assumes "publicKey x (vr_address req) = Inr pub"
    and "map_of (nonces st) (vr_address req) = Some rec"
    and "\<not> expiresAt rec < now"
    and "nonce rec = vr_nonce req"
    and "status (fst (mem_post_verify x now uid wid req st)) \<noteq> 200"
  shows "snd (mem_post_verify x now uid wid req st) = st"
  using assms
  by (auto simp add: mem_post_verify_def Let_def split_beta split: sum.splits if_splits)

lemma r_verify_bad_signature:
  assumes "hasAll rq"
    and "map_of (db_sessions db) (''nonce:'' @ js_String (rv_address rq)) = Some stored"
    and "jwtId stored = js_String (rv_nonce rq)"
    and "\<not> session_expiresAt stored < now"
    and "\<not> fst (try_signatures x (js_String (rv_address rq)) (js_String (rv_nonce rq))
                  (rv_signatureBase64 rq) (rv_signature58 rq))"
  shows "r_post_verify cfg x now rq db =
           (reply 400 (JError ''invalid signature''), db,
            snd (try_signatures x (js_String (rv_address rq)) (js_String (rv_nonce rq))
                  (rv_signatureBase64 rq) (rv_signature58 rq)))"
  using assms by (simp add: r_post_verify_def Let_def split_beta)

lemma demo_mem_bad:
  "mem_post_verify demo_ext 1000 uid wid (demo_vreq sig_two ''n1'') demo_mem =
     (reply 401 (JError ''Invalid signature''), demo_mem)"
  by (simp add: mem_post_verify_def demo_mem_def demo_vreq_def demo_ext_def demo_eval
        Let_def split_beta)

lemma demo_db_bad:
  "r_post_verify demo_cfg demo_ext 1000 (demo_rreq sig_two ''n1'') demo_db =
     (reply 400 (JError ''invalid signature''), demo_db,
      [(utf8 demo_ext ''n1'', replicate 63 0 @ [2], replicate 32 0)])"
  by (simp add: r_post_verify_def hasAll_def truthy_def demo_db_def demo_rreq_def demo_cfg_def
        demo_try_two demo_eval js_String_def Let_def split_beta)

text \<open>
  C2, as stated, fails: with the challenge \<^verbatim>\<open>n1\<close> stored and a 64-byte signature that
  does not verify, the route of \<^verbatim>\<open>auth-nonce.ts\<close> answers 401 and the store still holds
  the challenge.
\<close>

theorem consume_before_verify_counterexample:
  "fst (mem_post_verify demo_ext 1000 ''u'' ''w'' (demo_vreq sig_two ''n1'') demo_mem) =
     reply 401 (JError ''Invalid signature'') \<and>
   map_of (nonces (snd (mem_post_verify demo_ext 1000 ''u'' ''w'' (demo_vreq sig_two ''n1'') demo_mem)))
     demo_addr = Some \<lparr>nonce = ''n1'', expiresAt = 300000\<rparr>"
  by (simp add: demo_mem_bad) (simp add: demo_mem_def)

text \<open>
  C2, amended. In \<^verbatim>\<open>auth-nonce.ts\<close> and \<^verbatim>\<open>routes/auth.ts\<close> the challenge is deleted
  only once the signature has verified. When the nonce checks pass and the request then
  fails at the signature (it does not decode, the verifier throws, or it returns false),
  the store is exactly what it was, so the same challenge can be answered again.
\<close>

theorem failed_signature_keeps_challenge:
  "(publicKey x (vr_address req) = Inr pub \<and>
    map_of (nonces st) (vr_address req) = Some rec \<and>
    \<not> expiresAt rec < now \<and> nonce rec = vr_nonce req \<and>
    status (fst (mem_post_verify x now uid wid req st)) \<noteq> 200
      \<longrightarrow> snd (mem_post_verify x now uid wid req st) = st) \<and>
   (hasAll rq \<and>
    map_of (db_sessions db) (''nonce:'' @ js_String (rv_address rq)) = Some stored \<and>
    jwtId stored = js_String (rv_nonce rq) \<and> \<not> session_expiresAt stored < now \<and>
    \<not> fst (try_signatures x (js_String (rv_address rq)) (js_String (rv_nonce rq))
             (rv_signatureBase64 rq) (rv_signature58 rq))
      \<longrightarrow> fst (snd (r_post_verify cfg x now rq db)) = db)"
  using mem_verify_signature_stage [of x req pub st rec now uid wid]
        r_verify_bad_signature [of rq db stored now x cfg]
  by simp

theorem failed_signature_keeps_challenge_witness:
  "status (fst (mem_post_verify demo_ext 1000 ''u'' ''w'' (demo_vreq sig_two ''n1'') demo_mem)) \<noteq> 200 \<and>
   snd (mem_post_verify demo_ext 1000 ''u'' ''w'' (demo_vreq sig_two ''n1'') demo_mem) = demo_mem \<and>
   \<not> fst (try_signatures demo_ext demo_addr ''n1'' None (Some sig_two)) \<and>
   fst (snd (r_post_verify demo_cfg demo_ext 1000 (demo_rreq sig_two ''n1'') demo_db)) = demo_db"
proof -
  have a1: "publicKey demo_ext (vr_address (demo_vreq sig_two ''n1'')) = Inr (replicate 32 0)"
    by (simp add: demo_ext_def demo_vreq_def demo_eval)
  have a2: "map_of (nonces demo_mem) (vr_address (demo_vreq sig_two ''n1'')) =
              Some \<lparr>nonce = ''n1'', expiresAt = 300000\<rparr>"
    by (simp add: demo_mem_def demo_vreq_def)
  have a3: "status (fst (mem_post_verify demo_ext 1000 ''u'' ''w'' (demo_vreq sig_two ''n1'') demo_mem))
              \<noteq> 200"
    by (simp add: demo_mem_bad)
  have b1: "map_of (db_sessions demo_db) (''nonce:'' @ js_String (rv_address (demo_rreq sig_two ''n1''))) =
              Some \<lparr>session_userId = demo_addr, jwtId = ''n1'',
                    session_expiresAt = 300000, session_createdAt = 0\<rparr>"
    by (simp add: demo_db_def demo_rreq_def js_String_def)
  have b2: "\<not> fst (try_signatures demo_ext (js_String (rv_address (demo_rreq sig_two ''n1'')))
                    (js_String (rv_nonce (demo_rreq sig_two ''n1'')))
                    (rv_signatureBase64 (demo_rreq sig_two ''n1''))
                    (rv_signature58 (demo_rreq sig_two ''n1'')))"
    by (simp add: demo_rreq_def js_String_def demo_try_two)
  have b3: "\<not> fst (try_signatures demo_ext demo_addr ''n1'' None (Some sig_two))"
    by (simp add: demo_try_two)
  from failed_signature_keeps_challenge
         [of demo_ext "demo_vreq sig_two ''n1''" "replicate 32 0" demo_mem
             "\<lparr>nonce = ''n1'', expiresAt = 300000\<rparr>" 1000 "''u''" "''w''"
             "demo_rreq sig_two ''n1''" demo_db
             "\<lparr>session_userId = demo_addr, jwtId = ''n1'',
               session_expiresAt = 300000, session_createdAt = 0\<rparr>" demo_cfg]
  show ?thesis
    using a1 a2 a3 b1 b2 b3 demo_hasAll(2)
    by (simp add: demo_vreq_def demo_rreq_def js_String_def)
qed

subsection \<open>A wrong nonce value\<close>

lemma mem_verify_mismatch:
  assumes "publicKey x (vr_address req) = Inr pub"
    and "map_of (nonces st) (vr_address req) = Some rec"
    and "\<not> expiresAt rec < now"
    and "nonce rec \<noteq> vr_nonce req"
  shows "mem_post_verify x now uid wid req st = (reply 400 (JError ''Nonce mismatch''), st)"
  using assms by (simp add: mem_post_verify_def)

lemma r_verify_mismatch:
  assumes "hasAll rq"
    and "map_of (db_sessions db) (''nonce:'' @ js_String (rv_address rq)) = Some stored"
    and "jwtId stored \<noteq> js_String (rv_nonce rq)"
  shows "r_post_verify cfg x now rq db = (reply 400 (JError ''nonce invalid or expired''), db, [])"
  using assms by (simp add: r_post_verify_def)

text \<open>
  C8. With a challenge stored for the address and not expired, a submission whose nonce
  differs from the stored one is answered 400 \<^verbatim>\<open>Nonce mismatch\<close> by \<^verbatim>\<open>auth-nonce.ts\<close>
  and the store is unchanged; a later submission with the stored value and a signature that
  verifies, made before the expiry, succeeds. In \<^verbatim>\<open>routes/auth.ts\<close> the same submission
  is answered 400 with the route's message \<^verbatim>\<open>nonce invalid or expired\<close>, the store is
  unchanged, and the correct submission then succeeds as well.
\<close>

theorem nonce_mismatch_keeps_challenge:
  "(publicKey x (vr_address req) = Inr pub \<and>
    map_of (nonces st) (vr_address req) = Some rec \<and>
    \<not> expiresAt rec < now \<and> nonce rec \<noteq> vr_nonce req
      \<longrightarrow> mem_post_verify x now uid wid req st = (reply 400 (JError ''Nonce mismatch''), st) \<and>
          (vr_address req2 = vr_address req \<and> vr_nonce req2 = nonce rec \<and>
           \<not> expiresAt rec < now2 \<and> bs58_decode x (vr_signature req2) = Inr sig \<and>
           nacl_verify x (utf8 x (vr_nonce req2)) sig pub = Inr True
             \<longrightarrow> status (fst (mem_post_verify x now2 uid2 wid2 req2
                                (snd (mem_post_verify x now uid wid req st)))) = 200)) \<and>
   (hasAll rq \<and>
    map_of (db_sessions db) (''nonce:'' @ js_String (rv_address rq)) = Some stored \<and>
    jwtId stored \<noteq> js_String (rv_nonce rq)
      \<longrightarrow> r_post_verify cfg x now rq db =
            (reply 400 (JError ''nonce invalid or expired''), db, []) \<and>
          (hasAll rq2 \<and> js_String (rv_address rq2) = js_String (rv_address rq) \<and>
           js_String (rv_nonce rq2) = jwtId stored \<and> \<not> session_expiresAt stored < now2 \<and>
           fst (try_signatures x (js_String (rv_address rq2)) (js_String (rv_nonce rq2))
                  (rv_signatureBase64 rq2) (rv_signature58 rq2)) \<and>
           JWT_SECRET cfg \<noteq> []
             \<longrightarrow> status (fst (r_post_verify cfg x now2 rq2
                                (fst (snd (r_post_verify cfg x now rq db))))) = 200))"
proof (intro conjI impI; (elim conjE)?)
  assume h: "publicKey x (vr_address req) = Inr pub"
    "map_of (nonces st) (vr_address req) = Some rec"
    "\<not> expiresAt rec < now" "nonce rec \<noteq> vr_nonce req"
  show "mem_post_verify x now uid wid req st = (reply 400 (JError ''Nonce mismatch''), st)"
    by (rule mem_verify_mismatch [OF h])
next
  assume h: "publicKey x (vr_address req) = Inr pub"
    "map_of (nonces st) (vr_address req) = Some rec"
    "\<not> expiresAt rec < now" "nonce rec \<noteq> vr_nonce req"
  assume g: "vr_address req2 = vr_address req" "vr_nonce req2 = nonce rec"
    "\<not> expiresAt rec < now2" "bs58_decode x (vr_signature req2) = Inr sig"
    "nacl_verify x (utf8 x (vr_nonce req2)) sig pub = Inr True"
  have "status (fst (mem_post_verify x now2 uid2 wid2 req2 st)) = 200"
    by (rule mem_verify_success [where rec = rec and pub = pub and sig = sig])
       (use g h in simp_all)
  then show "status (fst (mem_post_verify x now2 uid2 wid2 req2
               (snd (mem_post_verify x now uid wid req st)))) = 200"
    by (simp add: mem_verify_mismatch [OF h])
next
  assume h: "hasAll rq"
    "map_of (db_sessions db) (''nonce:'' @ js_String (rv_address rq)) = Some stored"
    "jwtId stored \<noteq> js_String (rv_nonce rq)"
  show "r_post_verify cfg x now rq db =
          (reply 400 (JError ''nonce invalid or expired''), db, [])"
    by (rule r_verify_mismatch [OF h])
next
  assume h: "hasAll rq"
    "map_of (db_sessions db) (''nonce:'' @ js_String (rv_address rq)) = Some stored"
    "jwtId stored \<noteq> js_String (rv_nonce rq)"
  assume g: "hasAll rq2" "js_String (rv_address rq2) = js_String (rv_address rq)"
    "js_String (rv_nonce rq2) = jwtId stored" "\<not> session_expiresAt stored < now2"
    "fst (try_signatures x (js_String (rv_address rq2)) (js_String (rv_nonce rq2))
            (rv_signatureBase64 rq2) (rv_signature58 rq2))"
    "JWT_SECRET cfg \<noteq> []"
  have "status (fst (r_post_verify cfg x now2 rq2 db)) = 200"
    by (rule r_verify_success [where stored = stored]) (use g h in simp_all)
  then show "status (fst (r_post_verify cfg x now2 rq2
               (fst (snd (r_post_verify cfg x now rq db))))) = 200"
    by (simp add: r_verify_mismatch [OF h])
qed

theorem nonce_mismatch_keeps_challenge_witness:
  "mem_post_verify demo_ext 1000 ''u'' ''w'' (demo_vreq sig_zero ''n2'') demo_mem =
     (reply 400 (JError ''Nonce mismatch''), demo_mem) \<and>
   status (fst (mem_post_verify demo_ext 2000 ''u'' ''w'' (demo_vreq sig_zero ''n1'')
     (snd (mem_post_verify demo_ext 1000 ''u'' ''w'' (demo_vreq sig_zero ''n2'') demo_mem)))) = 200 \<and>
   r_post_verify demo_cfg demo_ext 1000 (demo_rreq sig_zero ''n2'') demo_db =
     (reply 400 (JError ''nonce invalid or expired''), demo_db, []) \<and>
   status (fst (r_post_verify demo_cfg demo_ext 2000 (demo_rreq sig_zero ''n1'')
     (fst (snd (r_post_verify demo_cfg demo_ext 1000 (demo_rreq sig_zero ''n2'') demo_db))))) = 200"
proof -
  let ?rec = "\<lparr>nonce = ''n1'', expiresAt = 300000\<rparr>"
  let ?stored = "\<lparr>session_userId = demo_addr, jwtId = ''n1'',
                  session_expiresAt = 300000, session_createdAt = 0\<rparr>"
  have a: "publicKey demo_ext demo_addr = Inr (replicate 32 0)"
    "map_of (nonces demo_mem) demo_addr = Some ?rec"
    "bs58_decode demo_ext sig_zero = Inr (replicate 64 0)"
    "nacl_verify demo_ext (utf8 demo_ext ''n1'') (replicate 64 0) (replicate 32 0) = Inr True"
    by (simp_all add: demo_ext_def demo_mem_def demo_eval)
  have b: "hasAll (demo_rreq sig_zero ''n2'')" "hasAll (demo_rreq sig_zero ''n1'')"
    "map_of (db_sessions demo_db) (''nonce:'' @ demo_addr) = Some ?stored"
    "fst (try_signatures demo_ext demo_addr ''n1'' None (Some sig_zero))"
    "JWT_SECRET demo_cfg \<noteq> []"
    by (simp_all add: hasAll_def truthy_def demo_rreq_def demo_db_def demo_cfg_def
          demo_try_zero demo_eval)
  from nonce_mismatch_keeps_challenge
         [where x = demo_ext and req = "demo_vreq sig_zero ''n2''" and pub = "replicate 32 0"
            and st = demo_mem and rec = ?rec and now = 1000 and uid = "''u''" and wid = "''w''"
            and ?req2.0 = "demo_vreq sig_zero ''n1''" and ?now2.0 = 2000
            and sig = "replicate 64 0" and ?uid2.0 = "''u''" and ?wid2.0 = "''w''"
            and rq = "demo_rreq sig_zero ''n2''" and db = demo_db and stored = ?stored
            and cfg = demo_cfg and ?rq2.0 = "demo_rreq sig_zero ''n1''"]
  show ?thesis
    using a b by auto
qed

subsection \<open>The status of a signature that does not verify\<close>

lemma mem_verify_invalid_signature:
  assumes "publicKey x (vr_address req) = Inr pub"
    and "map_of (nonces st) (vr_address req) = Some rec"
    and "\<not> expiresAt rec < now"
    and "nonce rec = vr_nonce req"
    and "bs58_decode x (vr_signature req) = Inr sig"
    and "nacl_verify x (utf8 x (vr_nonce req)) sig pub = Inr False"
  shows "mem_post_verify x now uid wid req st = (reply 401 (JError ''Invalid signature''), st)"
  using assms by (simp add: mem_post_verify_def)

lemma srv_verify_invalid_signature:
  assumes "srv_walletAddress rq \<noteq> []"
    and "srv_message x now rq (srv_walletAddress rq) = Inr m"
    and "srv_decode_signature x rq = Inr (sg, enc)"
    and "\<not> length sg < 64"
    and "bs58_decode x (srv_walletAddress rq) = Inr pk"
    and "nacl_verify x (utf8 x m) sg pk = Inr False"
  shows "srv_post_verify x now jti uid wid dbs rq =
           (reply 401 (JError ''Invalid signature''), [(utf8 x m, sg, pk)])"
  using assms by (simp add: srv_post_verify_def Let_def)

lemma demo_sreq_wallet [simp]: "srv_walletAddress (demo_sreq sg m) = demo_addr"
  by (simp add: srv_walletAddress_def demo_sreq_def js_or_def truthy_def demo_eval)

lemma demo_sreq_message:
  "m \<noteq> [] \<Longrightarrow> srv_message demo_ext now (demo_sreq sg m) w = Inr m"
  by (simp add: srv_message_def srv_bodyMessage_def demo_sreq_def js_or_def truthy_def)

lemma demo_sreq_decode:
  "trim sg = sg \<Longrightarrow> sg \<noteq> [] \<Longrightarrow> demo_bs58 sg = Inr bs \<Longrightarrow>
     srv_decode_signature demo_ext (demo_sreq sg m) = Inr (bs, ''base58'')"
  by (simp add: srv_decode_signature_def demo_sreq_def js_or_def truthy_def Let_def)

text \<open>
  C10, as stated, fails: with the challenge \<^verbatim>\<open>n1\<close> stored and matched and a signature
  that does not verify, \<^verbatim>\<open>routes/auth.ts\<close> answers with status 400, not 401.
\<close>

theorem invalid_signature_is_401_counterexample:
  "fst (r_post_verify demo_cfg demo_ext 1000 (demo_rreq sig_two ''n1'') demo_db) =
     reply 400 (JError ''invalid signature'') \<and>
   status (fst (r_post_verify demo_cfg demo_ext 1000 (demo_rreq sig_two ''n1'') demo_db)) \<noteq> 401"
  by (simp add: demo_db_bad)

text \<open>
  C10, amended. When the nonce checks pass and the detached-signature verifier returns
  false, \<^verbatim>\<open>auth-nonce.ts\<close> and \<^verbatim>\<open>server.ts\<close> answer 401 \<^verbatim>\<open>Invalid signature\<close>;
  \<^verbatim>\<open>routes/auth.ts\<close> answers 400 \<^verbatim>\<open>invalid signature\<close>, the status it uses for
  every other failure of the route.
\<close>

theorem invalid_signature_status:
  "(publicKey x (vr_address req) = Inr pub \<and>
    map_of (nonces st) (vr_address req) = Some rec \<and>
    \<not> expiresAt rec < now \<and> nonce rec = vr_nonce req \<and>
    bs58_decode x (vr_signature req) = Inr sig \<and>
    nacl_verify x (utf8 x (vr_nonce req)) sig pub = Inr False
      \<longrightarrow> fst (mem_post_verify x now uid wid req st) = reply 401 (JError ''Invalid signature'')) \<and>
   (srv_walletAddress sq \<noteq> [] \<and>
    srv_message x now sq (srv_walletAddress sq) = Inr m \<and>
    srv_decode_signature x sq = Inr (sg, enc) \<and> \<not> length sg < 64 \<and>
    bs58_decode x (srv_walletAddress sq) = Inr pk \<and>
    nacl_verify x (utf8 x m) sg pk = Inr False
      \<longrightarrow> fst (srv_post_verify x now jti uid wid dbs sq) = reply 401 (JError ''Invalid signature'')) \<and>
   (hasAll rq \<and>
    map_of (db_sessions db) (''nonce:'' @ js_String (rv_address rq)) = Some stored \<and>
    jwtId stored = js_String (rv_nonce rq) \<and> \<not> session_expiresAt stored < now \<and>
    \<not> fst (try_signatures x (js_String (rv_address rq)) (js_String (rv_nonce rq))
             (rv_signatureBase64 rq) (rv_signature58 rq))
      \<longrightarrow> fst (r_post_verify cfg x now rq db) = reply 400 (JError ''invalid signature''))"
  using mem_verify_invalid_signature [of x req pub st rec now sig uid wid]
        srv_verify_invalid_signature [of sq x now m sg enc pk jti uid wid dbs]
        r_verify_bad_signature [of rq db stored now x cfg]
  by simp

theorem invalid_signature_status_witness:
  "fst (mem_post_verify demo_ext 1000 ''u'' ''w'' (demo_vreq sig_two ''n1'') demo_mem) =
     reply 401 (JError ''Invalid signature'') \<and>
   fst (srv_post_verify demo_ext 1000 ''j'' ''u'' ''w'' ''skipped'' (demo_sreq sig_two ''hello'')) =
     reply 401 (JError ''Invalid signature'') \<and>
   fst (r_post_verify demo_cfg demo_ext 1000 (demo_rreq sig_two ''n1'') demo_db) =
     reply 400 (JError ''invalid signature'')"
proof -
  let ?rec = "\<lparr>nonce = ''n1'', expiresAt = 300000\<rparr>"
  let ?stored = "\<lparr>session_userId = demo_addr, jwtId = ''n1'',
                  session_expiresAt = 300000, session_createdAt = 0\<rparr>"
  have a: "publicKey demo_ext demo_addr = Inr (replicate 32 0)"
    "map_of (nonces demo_mem) demo_addr = Some ?rec"
    "bs58_decode demo_ext sig_two = Inr (replicate 63 0 @ [2])"
    "nacl_verify demo_ext (utf8 demo_ext ''n1'') (replicate 63 0 @ [2]) (replicate 32 0) = Inr False"
    by (simp_all add: demo_ext_def demo_mem_def demo_eval)
  have c: "demo_addr \<noteq> []"
    "srv_message demo_ext 1000 (demo_sreq sig_two ''hello'') demo_addr = Inr ''hello''"
    "srv_decode_signature demo_ext (demo_sreq sig_two ''hello'') =
       Inr (replicate 63 0 @ [2], ''base58'')"
    "\<not> length (replicate 63 (0::8 word) @ [2]) < 64"
    "bs58_decode demo_ext demo_addr = Inr (replicate 32 0)"
    "nacl_verify demo_ext (utf8 demo_ext ''hello'') (replicate 63 0 @ [2]) (replicate 32 0) = Inr False"
    by (simp_all add: demo_sreq_message demo_sreq_decode demo_eval)
  have b: "hasAll (demo_rreq sig_two ''n1'')"
    "map_of (db_sessions demo_db) (''nonce:'' @ demo_addr) = Some ?stored"
    "\<not> fst (try_signatures demo_ext demo_addr ''n1'' None (Some sig_two))"
    by (simp_all add: demo_hasAll demo_db_def demo_try_two)
  from invalid_signature_status
         [where x = demo_ext and req = "demo_vreq sig_two ''n1''" and pub = "replicate 32 0"
            and st = demo_mem and rec = ?rec and now = 1000 and sig = "replicate 63 0 @ [2]"
            and uid = "''u''" and wid = "''w''"
            and sq = "demo_sreq sig_two ''hello''" and m = "''hello''"
            and sg = "replicate 63 0 @ [2]" and enc = "''base58''" and pk = "replicate 32 0"
            and jti = "''j''" and dbs = "''skipped''"
            and rq = "demo_rreq sig_two ''n1''" and db = demo_db and stored = ?stored
            and cfg = demo_cfg]
  show ?thesis
    using a b c by auto
qed

subsection \<open>An expired challenge\<close>

lemma mem_verify_expired:
  assumes "publicKey x (vr_address req) = Inr pub"
    and "map_of (nonces st) (vr_address req) = Some rec"
    and "expiresAt rec < now"
  shows "mem_post_verify x now uid wid req st =
           (reply 400 (JError ''Nonce expired. Get a new nonce.''),
            st\<lparr>nonces := AList.delete (vr_address req) (nonces st)\<rparr>)"
  using assms by (simp add: mem_post_verify_def)

lemma r_verify_expired:
  assumes "hasAll rq"
    and "map_of (db_sessions db) (''nonce:'' @ js_String (rv_address rq)) = Some stored"
    and "session_expiresAt stored < now"
  shows "r_post_verify cfg x now rq db = (reply 400 (JError ''nonce invalid or expired''), db, [])"
  using assms by (simp add: r_post_verify_def Let_def)

text \<open>
  C6, as stated, fails: \<^verbatim>\<open>routes/auth.ts\<close> rejects the attempt made 100 seconds after the
  expiry, but the expired record is still in the session table afterwards.
\<close>

theorem expired_record_dropped_counterexample:
  "fst (r_post_verify demo_cfg demo_ext 400000 (demo_rreq sig_zero ''n1'') demo_db) =
     reply 400 (JError ''nonce invalid or expired'') \<and>
   map_of (db_sessions (fst (snd (r_post_verify demo_cfg demo_ext 400000
             (demo_rreq sig_zero ''n1'') demo_db))))
     (''nonce:'' @ demo_addr) =
     Some \<lparr>session_userId = demo_addr, jwtId = ''n1'',
           session_expiresAt = 300000, session_createdAt = 0\<rparr>"
proof -
  have "r_post_verify demo_cfg demo_ext 400000 (demo_rreq sig_zero ''n1'') demo_db =
          (reply 400 (JError ''nonce invalid or expired''), demo_db, [])"
    by (rule r_verify_expired [where stored = "\<lparr>session_userId = demo_addr, jwtId = ''n1'',
           session_expiresAt = 300000, session_createdAt = 0\<rparr>"])
       (simp_all add: demo_hasAll demo_db_def)
  then show ?thesis by (simp add: demo_db_def)
qed

text \<open>
  C6, amended. For a stored challenge and an attempt at a time strictly after
  \<^verbatim>\<open>expiresAt\<close>: \<^verbatim>\<open>auth-nonce.ts\<close> answers 400 \<^verbatim>\<open>Nonce expired. Get a new nonce.\<close>
  whatever the nonce and the signature are, and deletes the record; \<^verbatim>\<open>routes/auth.ts\<close>
  answers 400 \<^verbatim>\<open>nonce invalid or expired\<close> whatever the nonce and the signature are,
  without calling the verifier, and leaves the record in the table.
\<close>

theorem expired_challenge_rejected:
  "(publicKey x (vr_address req) = Inr pub \<and>
    map_of (nonces st) (vr_address req) = Some rec \<and> expiresAt rec < now
      \<longrightarrow> mem_post_verify x now uid wid req st =
            (reply 400 (JError ''Nonce expired. Get a new nonce.''),
             st\<lparr>nonces := AList.delete (vr_address req) (nonces st)\<rparr>) \<and>
          map_of (nonces (snd (mem_post_verify x now uid wid req st))) (vr_address req) = None) \<and>
   (hasAll rq \<and>
    map_of (db_sessions db) (''nonce:'' @ js_String (rv_address rq)) = Some stored \<and>
    session_expiresAt stored < now
      \<longrightarrow> r_post_verify cfg x now rq db =
            (reply 400 (JError ''nonce invalid or expired''), db, []))"
  using mem_verify_expired [of x req pub st rec now uid wid]
        r_verify_expired [of rq db stored now cfg x]
  by (simp add: delete_conv')

theorem expired_challenge_rejected_witness:
  "mem_post_verify demo_ext 400000 ''u'' ''w'' (demo_vreq sig_zero ''n1'') demo_mem =
     (reply 400 (JError ''Nonce expired. Get a new nonce.''),
      demo_mem\<lparr>nonces := AList.delete demo_addr (nonces demo_mem)\<rparr>) \<and>
   map_of (nonces (snd (mem_post_verify demo_ext 400000 ''u'' ''w'' (demo_vreq sig_zero ''n1'') demo_mem)))
     demo_addr = None \<and>
   r_post_verify demo_cfg demo_ext 400000 (demo_rreq sig_zero ''n1'') demo_db =
     (reply 400 (JError ''nonce invalid or expired''), demo_db, [])"
proof -
  let ?rec = "\<lparr>nonce = ''n1'', expiresAt = 300000\<rparr>"
  let ?stored = "\<lparr>session_userId = demo_addr, jwtId = ''n1'',
                  session_expiresAt = 300000, session_createdAt = 0\<rparr>"
  have a: "publicKey demo_ext demo_addr = Inr (replicate 32 0)"
    "map_of (nonces demo_mem) demo_addr = Some ?rec"
    by (simp_all add: demo_ext_def demo_mem_def demo_eval)
  have b: "hasAll (demo_rreq sig_zero ''n1'')"
    "map_of (db_sessions demo_db) (''nonce:'' @ demo_addr) = Some ?stored"
    by (simp_all add: demo_hasAll demo_db_def)
  from expired_challenge_rejected
         [where x = demo_ext and req = "demo_vreq sig_zero ''n1''" and pub = "replicate 32 0"
            and st = demo_mem and rec = ?rec and now = 400000 and uid = "''u''" and wid = "''w''"
            and rq = "demo_rreq sig_zero ''n1''" and db = demo_db and stored = ?stored
            and cfg = demo_cfg]
  show ?thesis
    using a b by auto
qed

subsection \<open>Issuing a challenge\<close>

lemma mem_nonce_invalid_address:
  assumes "nonce_req_address req = Some a" and "a \<noteq> []" and "publicKey x a = Inl e"
  shows "mem_post_nonce x now rnd req st = (reply 400 (JError ''Invalid walletAddress''), st)"
  using assms by (simp add: mem_post_nonce_def truthy_def)

lemma createAndStoreNonce_stored:
  "map_option jwtId (map_of (db_sessions (snd (createAndStoreNonce now hex a db))) (''nonce:'' @ a)) =
     Some (fst (createAndStoreNonce now hex a db))"
  by (simp add: createAndStoreNonce_def Let_def update_conv' split: option.splits)

lemma r_get_nonce_any:
  assumes "trim (js_String (js_or q (Some []))) = a" and "a \<noteq> []"
  shows "fst (r_get_nonce now hex q db) = reply 200 (JNonce (fst (createAndStoreNonce now hex a db)))"
    and "snd (r_get_nonce now hex q db) = snd (createAndStoreNonce now hex a db)"
  using assms by (simp_all add: r_get_nonce_def Let_def split_beta)

lemma srv_get_nonce_any:
  assumes "trim (js_String (js_or q (Some []))) = a" and "a \<noteq> []"
  shows "srv_get_nonce cfg x now uuid jti q =
           \<lparr>status = 200,
            body = JChallenge a uuid (srv_challenge_message cfg x now a uuid) 300,
            cookie_ops = [SetCookie ''nonce''
              (jwt_sign x [(''t'', ''nonce''), (''wallet'', a), (''nonce'', uuid),
                           (''msg'', srv_challenge_message cfg x now a uuid), (''jti'', jti)]
                 (5 * 60) now) (5 * 60 * 1000)]\<rparr>"
  using assms by (simp add: srv_get_nonce_def Let_def)

lemma demo_bad_addr: "demo_publicKey bad_addr = Inl ''Non-base58 character''"
  by code_simp

lemma demo_bad_addr_trim: "trim bad_addr = bad_addr" "bad_addr \<noteq> []"
  by code_simp+

lemma demo_q_addr:
  "trim (js_String (js_or (Some demo_addr) (Some []))) = demo_addr"
  "trim (js_String (js_or (Some bad_addr) (Some []))) = bad_addr"
  by (simp_all add: js_or_def truthy_def demo_eval demo_bad_addr_trim)

text \<open>
  C9, as stated, fails: \<^verbatim>\<open>0O\<close> is not base58, so it is no public key, and
  \<^verbatim>\<open>routes/auth.ts\<close> answers 200 to a nonce request for it and stores a challenge
  that expires five minutes later.
\<close>

theorem malformed_address_counterexample:
  "publicKey demo_ext bad_addr = Inl ''Non-base58 character'' \<and>
   status (fst (r_get_nonce 1000 ''ab'' (Some bad_addr) db_init)) = 200 \<and>
   map_option session_expiresAt
     (map_of (db_sessions (snd (r_get_nonce 1000 ''ab'' (Some bad_addr) db_init)))
        (''nonce:'' @ bad_addr)) = Some 301000"
  by (simp add: demo_bad_addr r_get_nonce_any [OF demo_q_addr(2) demo_bad_addr_trim(2)]
        createAndStoreNonce_def db_init_def Let_def)

text \<open>
  C9, amended. \<^verbatim>\<open>auth-nonce.ts\<close> answers a nonce request for an address that is not a
  public key with 400 \<^verbatim>\<open>Invalid walletAddress\<close> and stores nothing. The nonce routes
  of \<^verbatim>\<open>routes/auth.ts\<close> and \<^verbatim>\<open>server.ts\<close> do not validate the address: every address
  that is not empty after trimming is answered 200 with a challenge, stored in the session
  table by the first and sent in the answer by the second.
\<close>

theorem invalid_address_rejected:
  "(nonce_req_address req = Some a \<and> a \<noteq> [] \<and> publicKey x a = Inl e
      \<longrightarrow> mem_post_nonce x now rnd req st = (reply 400 (JError ''Invalid walletAddress''), st)) \<and>
   (trim (js_String (js_or q (Some []))) = b \<and> b \<noteq> []
      \<longrightarrow> status (fst (r_get_nonce now hex q db)) = 200 \<and>
          map_option jwtId (map_of (db_sessions (snd (r_get_nonce now hex q db))) (''nonce:'' @ b)) =
            Some (fst (createAndStoreNonce now hex b db)) \<and>
          status (srv_get_nonce cfg x now uuid jti q) = 200 \<and>
          body (srv_get_nonce cfg x now uuid jti q) =
            JChallenge b uuid (srv_challenge_message cfg x now b uuid) 300)"
  using mem_nonce_invalid_address [of req a x e now rnd st]
        r_get_nonce_any [of q b now hex db]
        srv_get_nonce_any [of q b cfg x now uuid jti]
        createAndStoreNonce_stored [of now hex b db]
  by simp

theorem invalid_address_rejected_witness:
  "mem_post_nonce demo_ext 1000 ''r'' (demo_nreq bad_addr) demo_mem =
     (reply 400 (JError ''Invalid walletAddress''), demo_mem) \<and>
   status (fst (r_get_nonce 1000 ''ab'' (Some bad_addr) db_init)) = 200 \<and>
   status (srv_get_nonce demo_cfg demo_ext 1000 ''uuid-1'' ''j1'' (Some bad_addr)) = 200"
proof -
  have a: "nonce_req_address (demo_nreq bad_addr) = Some bad_addr"
    by (simp add: nonce_req_address_def demo_nreq_def js_nullish_def demo_bad_addr_trim)
  from invalid_address_rejected
         [where req = "demo_nreq bad_addr" and a = bad_addr and x = demo_ext
            and e = "''Non-base58 character''" and now = 1000 and rnd = "''r''" and st = demo_mem
            and q = "Some bad_addr" and b = bad_addr and hex = "''ab''" and db = db_init
            and cfg = demo_cfg and uuid = "''uuid-1''" and jti = "''j1''"]
  show ?thesis
    using a demo_bad_addr demo_bad_addr_trim demo_q_addr by auto
qed

lemma mem_post_nonce_cases:
  assumes "status (fst (mem_post_nonce x now rnd req st)) = 200"
    and "nonce_req_address req = Some a"
  shows "(mem_live st a now \<and>
          (\<exists>existing. map_of (nonces st) a = Some existing \<and>
             mem_post_nonce x now rnd req st = (reply 200 (JNonce (nonce existing)), st))) \<or>
         (\<not> mem_live st a now \<and> mem_post_nonce x now rnd req st = mem_issue now rnd a st)"
  using assms
  by (auto simp add: mem_post_nonce_def mem_live_def Let_def
           split: if_splits sum.splits option.splits)

lemma mem_post_nonce_200:
  assumes "status (fst (mem_post_nonce x now rnd req st)) = 200"
    and "nonce_req_address req = Some a"
  shows "a \<noteq> [] \<and> (\<exists>pub. publicKey x a = Inr pub)"
  using assms
  by (auto simp add: mem_post_nonce_def truthy_def Let_def split: if_splits sum.splits)

lemma mem_post_nonce_live:
  assumes "a \<noteq> []" and "publicKey x a = Inr pub" and "nonce_req_address req = Some a"
    and "map_of (nonces st) a = Some existing" and "now < expiresAt existing"
  shows "mem_post_nonce x now rnd req st = (reply 200 (JNonce (nonce existing)), st)"
  using assms by (simp add: mem_post_nonce_def truthy_def)

text \<open>
  C4, as stated, fails: \<^verbatim>\<open>server.ts\<close> keeps no challenge; two nonce requests for one
  wallet, a second apart, return the two values the random generator drew.
\<close>

theorem nonce_reissue_counterexample:
  "body (srv_get_nonce demo_cfg demo_ext 1000 ''uuid-1'' ''j1'' (Some demo_addr)) =
     JChallenge demo_addr ''uuid-1'' (srv_challenge_message demo_cfg demo_ext 1000 demo_addr ''uuid-1'') 300 \<and>
   body (srv_get_nonce demo_cfg demo_ext 2000 ''uuid-2'' ''j2'' (Some demo_addr)) =
     JChallenge demo_addr ''uuid-2'' (srv_challenge_message demo_cfg demo_ext 2000 demo_addr ''uuid-2'') 300 \<and>
   body (srv_get_nonce demo_cfg demo_ext 1000 ''uuid-1'' ''j1'' (Some demo_addr)) \<noteq>
     body (srv_get_nonce demo_cfg demo_ext 2000 ''uuid-2'' ''j2'' (Some demo_addr))"
  by (simp add: srv_get_nonce_any [OF demo_q_addr(1) demo_addr_ne])

text \<open>
  C4, amended. In \<^verbatim>\<open>auth-nonce.ts\<close>, after a nonce request that was answered 200 the
  address has a live challenge; a second request for the address made while that challenge
  is live (\<^verbatim>\<open>expiresAt > now\<close>) gets the same answer and leaves the store unchanged; and
  a challenge issued fresh at \<open>t1\<close> is live at every time before \<open>t1 + NONCE_TTL_MS\<close>.
  The nonce route of \<^verbatim>\<open>server.ts\<close> returns the value drawn for the request.
\<close>

theorem nonce_reissue_idempotent:
  "(mem_post_nonce x t1 r1 req st = (resp, st1) \<and> status resp = 200 \<and>
    nonce_req_address req = Some a
      \<longrightarrow> mem_live st1 a t1 \<and>
          (mem_live st1 a t2 \<longrightarrow> mem_post_nonce x t2 r2 req st1 = (resp, st1)) \<and>
          (\<not> mem_live st a t1 \<and> t2 < t1 + NONCE_TTL_MS \<longrightarrow> mem_live st1 a t2)) \<and>
   (trim (js_String (js_or q (Some []))) = b \<and> b \<noteq> []
      \<longrightarrow> body (srv_get_nonce cfg x now uuid jti q) =
            JChallenge b uuid (srv_challenge_message cfg x now b uuid) 300)"
proof (intro conjI impI; (elim conjE)?)
  assume run: "mem_post_nonce x t1 r1 req st = (resp, st1)" and ok: "status resp = 200"
    and addr: "nonce_req_address req = Some a"
  from run ok have ok': "status (fst (mem_post_nonce x t1 r1 req st)) = 200" by simp
  from mem_post_nonce_200 [OF ok' addr] obtain pub where
    ne: "a \<noteq> []" and pk: "publicKey x a = Inr pub" by blast
  from mem_post_nonce_cases [OF ok' addr]
  have stored: "\<exists>rec. map_of (nonces st1) a = Some rec \<and> t1 < expiresAt rec \<and>
                  resp = reply 200 (JNonce (nonce rec)) \<and>
                  (\<not> mem_live st a t1 \<longrightarrow> expiresAt rec = t1 + NONCE_TTL_MS)"
    using run
    by (auto simp add: mem_live_def mem_issue_def update_conv' NONCE_TTL_MS_def
             split: option.splits)
  then obtain rec where
    rec: "map_of (nonces st1) a = Some rec" "t1 < expiresAt rec"
      "resp = reply 200 (JNonce (nonce rec))"
      "\<not> mem_live st a t1 \<longrightarrow> expiresAt rec = t1 + NONCE_TTL_MS"
    by blast
  show "mem_live st1 a t1"
    using rec by (simp add: mem_live_def)
  {
    assume live: "mem_live st1 a t2"
    then have "t2 < expiresAt rec" using rec(1) by (simp add: mem_live_def)
    from mem_post_nonce_live [OF ne pk addr rec(1) this]
    show "mem_post_nonce x t2 r2 req st1 = (resp, st1)"
      using rec(3) by simp
  }
  {
    assume "\<not> mem_live st a t1" and "t2 < t1 + NONCE_TTL_MS"
    then show "mem_live st1 a t2"
      using rec by (simp add: mem_live_def)
  }
next
  assume "trim (js_String (js_or q (Some []))) = b" and "b \<noteq> []"
  then show "body (srv_get_nonce cfg x now uuid jti q) =
          JChallenge b uuid (srv_challenge_message cfg x now b uuid) 300"
    by (simp add: srv_get_nonce_any)
qed

theorem nonce_reissue_idempotent_witness:
  "mem_post_nonce demo_ext 1000 ''n1'' (demo_nreq demo_addr) mem_init =
     (reply 200 (JNonce ''n1''),
      \<lparr>nonces = [(demo_addr, \<lparr>nonce = ''n1'', expiresAt = 301000\<rparr>)], wallets = [], users = []\<rparr>) \<and>
   mem_post_nonce demo_ext 2000 ''n2'' (demo_nreq demo_addr)
     \<lparr>nonces = [(demo_addr, \<lparr>nonce = ''n1'', expiresAt = 301000\<rparr>)], wallets = [], users = []\<rparr> =
     (reply 200 (JNonce ''n1''),
      \<lparr>nonces = [(demo_addr, \<lparr>nonce = ''n1'', expiresAt = 301000\<rparr>)], wallets = [], users = []\<rparr>) \<and>
   body (srv_get_nonce demo_cfg demo_ext 1000 ''uuid-1'' ''j1'' (Some demo_addr)) =
     JChallenge demo_addr ''uuid-1'' (srv_challenge_message demo_cfg demo_ext 1000 demo_addr ''uuid-1'') 300"
proof -
  let ?st1 = "\<lparr>nonces = [(demo_addr, \<lparr>nonce = ''n1'', expiresAt = 301000\<rparr>)],
               wallets = [], users = []\<rparr>"
  have a: "nonce_req_address (demo_nreq demo_addr) = Some demo_addr"
    by (simp add: nonce_req_address_def demo_nreq_def js_nullish_def demo_eval)
  have first: "mem_post_nonce demo_ext 1000 ''n1'' (demo_nreq demo_addr) mem_init =
                 (reply 200 (JNonce ''n1''), ?st1)"
    by (simp add: mem_post_nonce_def a truthy_def demo_eval mem_init_def mem_issue_def
          NONCE_TTL_MS_def)
  have live0: "\<not> mem_live mem_init demo_addr 1000"
    by (simp add: mem_live_def mem_init_def)
  from nonce_reissue_idempotent
         [where x = demo_ext and ?t1.0 = 1000 and ?r1.0 = "''n1''" and req = "demo_nreq demo_addr"
            and st = mem_init and resp = "reply 200 (JNonce ''n1'')" and ?st1.0 = ?st1
            and a = demo_addr and ?t2.0 = 2000 and ?r2.0 = "''n2''"
            and q = "Some demo_addr" and b = demo_addr and cfg = demo_cfg and now = 1000
            and uuid = "''uuid-1''" and jti = "''j1''"]
  show ?thesis
    using a first live0 demo_q_addr(1) demo_addr_ne by (auto simp add: NONCE_TTL_MS_def)
qed

subsection \<open>The verify route of \<^verbatim>\<open>server.ts\<close>\<close>

lemma js_String_js_or:
  "js_String (js_or a r) =
     (case a of None \<Rightarrow> js_String r | Some s \<Rightarrow> if s \<noteq> [] then s else js_String r)"
  by (simp add: js_or_def truthy_def js_String_def split: option.splits)

lemma truthy_js_or:
  "truthy (js_or a (js_or b (Some []))) \<longleftrightarrow> js_String (js_or a (js_or b (Some []))) \<noteq> []"
  by (simp add: js_or_def truthy_def js_String_def split: option.splits)

lemma srv_walletAddress_fields:
  "srv_walletAddress rq =
     trim (first_truthy [sv_body rq ''walletAddress'', sv_body rq ''address'', sv_body rq ''wallet'',
                         sv_query rq ''walletAddress'', sv_query rq ''address'',
                         sv_query rq ''wallet''])"
  by (simp add: srv_walletAddress_def Let_def js_String_js_or split: option.splits)

lemma srv_bodyMessage_fields:
  "srv_bodyMessage rq =
     (if first_truthy [sv_body rq ''message'', sv_query rq ''message''] \<noteq> []
      then Some (first_truthy [sv_body rq ''message'', sv_query rq ''message'']) else None)"
  by (simp add: srv_bodyMessage_def Let_def js_or_def truthy_def js_String_def
           split: option.splits)

lemma srv_decode_signature_fields:
  "srv_decode_signature x rq =
     (let s64 = trim (first_truthy [sv_body rq ''signature'', sv_body rq ''sig'',
                                    sv_query rq ''signature'', sv_query rq ''sig'']);
          s58 = trim (first_truthy [sv_body rq ''signatureBase58'', sv_query rq ''signatureBase58''])
      in if s64 \<noteq> [] then
           (case buffer_base64 x s64 of
              Inl _ \<Rightarrow> Inl (reply 400 (JError ''Bad signature (base64)''))
            | Inr sig \<Rightarrow> Inr (sig, ''base64''))
         else if s58 \<noteq> [] then
           (case bs58_decode x s58 of
              Inl _ \<Rightarrow> Inl (reply 400 (JError ''Bad signature (base58)''))
            | Inr sig \<Rightarrow> Inr (sig, ''base58''))
         else Inl (reply 400 (JErrorHint ''Missing signature''
                     ''Send 'signature' (Base64) or 'signatureBase58'.'')))"
  by (simp add: srv_decode_signature_def Let_def js_String_js_or split: option.splits)

lemma srv_message_no_cookie:
  assumes "sv_nonce_cookie rq = None \<or> sv_nonce_cookie rq = Some [] \<or>
           (sv_nonce_cookie rq = Some c \<and> jwt_verify x c t = Inl e)"
    and "first_truthy [sv_body rq ''message'', sv_query rq ''message''] = m" and "m \<noteq> []"
  shows "srv_message x t rq w = Inr m"
  using assms
  by (auto simp add: srv_message_def srv_bodyMessage_fields Let_def truthy_def js_String_def)

lemma srv_verify_accepts:
  assumes "srv_walletAddress rq \<noteq> []"
    and "srv_message x t rq (srv_walletAddress rq) = Inr m"
    and "srv_decode_signature x rq = Inr (sg, enc)"
    and "64 \<le> length sg"
    and "bs58_decode x (srv_walletAddress rq) = Inr pk"
    and "nacl_verify x (utf8 x m) sg pk = Inr True"
  shows "srv_post_verify x t jti uid wid dbs rq =
           (\<lparr>status = 200,
             body = JVerified (srv_auth_token x t jti uid wid) uid wid enc dbs
                      (toISOString x (t + 30 * 24 * 60 * 60 * 1000)),
             cookie_ops = [ClearCookie ''nonce'',
                           SetCookie ''auth'' (srv_auth_token x t jti uid wid)
                             (30 * 24 * 60 * 60 * 1000)]\<rparr>,
            [(utf8 x m, sg, pk)])"
  using assms by (simp add: srv_post_verify_def Let_def)

lemma srv_verify_short:
  assumes "srv_walletAddress rq \<noteq> []"
    and "srv_message x t rq (srv_walletAddress rq) = Inr m"
    and "srv_decode_signature x rq = Inr (sg, enc)"
    and "length sg < 64"
  shows "srv_post_verify x t jti uid wid dbs rq =
           (reply 400 (JError ''Signature length invalid''), [])"
  using assms by (simp add: srv_post_verify_def Let_def)

lemma srv_verify_calls:
  "c \<in> set (snd (srv_post_verify x t jti uid wid dbs rq)) \<Longrightarrow> 64 \<le> length (fst (snd c))"
  by (auto simp add: srv_post_verify_def Let_def split: sum.splits if_splits prod.splits)

lemma srv_verify_accepts_fields:
  assumes cookie: "sv_nonce_cookie rq = None \<or> sv_nonce_cookie rq = Some [] \<or>
           (sv_nonce_cookie rq = Some c \<and> jwt_verify x c t = Inl e)"
    and w: "trim (first_truthy [sv_body rq ''walletAddress'', sv_body rq ''address'',
              sv_body rq ''wallet'', sv_query rq ''walletAddress'', sv_query rq ''address'',
              sv_query rq ''wallet'']) = w" "w \<noteq> []"
    and m: "first_truthy [sv_body rq ''message'', sv_query rq ''message''] = m" "m \<noteq> []"
    and s64: "trim (first_truthy [sv_body rq ''signature'', sv_body rq ''sig'',
                sv_query rq ''signature'', sv_query rq ''sig'']) = s64"
    and s58: "trim (first_truthy [sv_body rq ''signatureBase58'',
                sv_query rq ''signatureBase58'']) = s58"
    and sig: "s64 \<noteq> [] \<and> buffer_base64 x s64 = Inr sg \<and> enc = ''base64'' \<or>
              s64 = [] \<and> s58 \<noteq> [] \<and> bs58_decode x s58 = Inr sg \<and> enc = ''base58''"
    and len: "64 \<le> length sg"
    and pk: "bs58_decode x w = Inr pk"
    and v: "nacl_verify x (utf8 x m) sg pk = Inr True"
  shows "srv_post_verify x t jti uid wid dbs rq =
           (\<lparr>status = 200,
             body = JVerified (srv_auth_token x t jti uid wid) uid wid enc dbs
                      (toISOString x (t + 30 * 24 * 60 * 60 * 1000)),
             cookie_ops = [ClearCookie ''nonce'',
                           SetCookie ''auth'' (srv_auth_token x t jti uid wid)
                             (30 * 24 * 60 * 60 * 1000)]\<rparr>,
            [(utf8 x m, sg, pk)])"
proof -
  have wa: "srv_walletAddress rq = w"
    using w(1) by (simp add: srv_walletAddress_fields)
  have msg: "srv_message x t rq w = Inr m"
    by (rule srv_message_no_cookie [OF cookie m])
  have dec: "srv_decode_signature x rq = Inr (sg, enc)"
    using sig s64 s58 by (auto simp add: srv_decode_signature_fields Let_def)
  show ?thesis
    by (rule srv_verify_accepts) (simp_all add: wa w(2) msg dec len pk v)
qed

text \<open>
  C3. In the verify route of \<^verbatim>\<open>server.ts\<close>, take a request whose \<^verbatim>\<open>nonce\<close> cookie is
  absent, empty, or rejected by \<^verbatim>\<open>jwt.verify\<close>. Let \<open>w\<close> be the trimmed wallet address
  the request names (the first non-empty of the body fields \<^verbatim>\<open>walletAddress\<close>,
  \<^verbatim>\<open>address\<close>, \<^verbatim>\<open>wallet\<close> and then the same query fields), \<open>m\<close> the message the
  caller put in the body field \<^verbatim>\<open>message\<close> (or, without it, the query field), and
  \<open>sg\<close> what the caller's signature field decodes to (\<^verbatim>\<open>signature\<close> or \<^verbatim>\<open>sig\<close> as
  base64, else \<^verbatim>\<open>signatureBase58\<close> as base58). When \<open>sg\<close> has at least 64 bytes and
  the verifier accepts it for the bytes of \<open>m\<close> under the base58-decoded \<open>w\<close>, the answer
  is 200 with a token signed for 30 days, and the one call of the verifier was on the
  caller's own message. No store and no challenge is consulted, and the same request sent
  again, at any time at which the cookie is still unusable, is accepted again.
\<close>

theorem srv_body_message_accepted:
  "(sv_nonce_cookie rq = None \<or> sv_nonce_cookie rq = Some [] \<or>
      (sv_nonce_cookie rq = Some c \<and> jwt_verify x c t1 = Inl e1 \<and> jwt_verify x c t2 = Inl e2)) \<and>
   trim (first_truthy [sv_body rq ''walletAddress'', sv_body rq ''address'', sv_body rq ''wallet'',
                       sv_query rq ''walletAddress'', sv_query rq ''address'',
                       sv_query rq ''wallet'']) = w \<and> w \<noteq> [] \<and>
   first_truthy [sv_body rq ''message'', sv_query rq ''message''] = m \<and> m \<noteq> [] \<and>
   trim (first_truthy [sv_body rq ''signature'', sv_body rq ''sig'',
                       sv_query rq ''signature'', sv_query rq ''sig'']) = s64 \<and>
   trim (first_truthy [sv_body rq ''signatureBase58'', sv_query rq ''signatureBase58'']) = s58 \<and>
   (s64 \<noteq> [] \<and> buffer_base64 x s64 = Inr sg \<and> enc = ''base64'' \<or>
    s64 = [] \<and> s58 \<noteq> [] \<and> bs58_decode x s58 = Inr sg \<and> enc = ''base58'') \<and>
   64 \<le> length sg \<and> bs58_decode x w = Inr pk \<and>
   nacl_verify x (utf8 x m) sg pk = Inr True
     \<longrightarrow> srv_post_verify x t1 jti1 uid1 wid1 dbs1 rq =
           (\<lparr>status = 200,
             body = JVerified (srv_auth_token x t1 jti1 uid1 wid1) uid1 wid1 enc dbs1
                      (toISOString x (t1 + 30 * 24 * 60 * 60 * 1000)),
             cookie_ops = [ClearCookie ''nonce'',
                           SetCookie ''auth'' (srv_auth_token x t1 jti1 uid1 wid1)
                             (30 * 24 * 60 * 60 * 1000)]\<rparr>,
            [(utf8 x m, sg, pk)]) \<and>
         srv_auth_token x t1 jti1 uid1 wid1 =
           jwt_sign x [(''sub'', uid1), (''wid'', wid1), (''t'', ''auth''), (''jti'', jti1)]
             (30 * 24 * 3600) t1 \<and>
         status (fst (srv_post_verify x t2 jti2 uid2 wid2 dbs2 rq)) = 200 \<and>
         snd (srv_post_verify x t2 jti2 uid2 wid2 dbs2 rq) = [(utf8 x m, sg, pk)]"
proof (intro impI, elim conjE)
  assume cookie: "sv_nonce_cookie rq = None \<or> sv_nonce_cookie rq = Some [] \<or>
      (sv_nonce_cookie rq = Some c \<and> jwt_verify x c t1 = Inl e1 \<and> jwt_verify x c t2 = Inl e2)"
    and w: "trim (first_truthy [sv_body rq ''walletAddress'', sv_body rq ''address'',
              sv_body rq ''wallet'', sv_query rq ''walletAddress'', sv_query rq ''address'',
              sv_query rq ''wallet'']) = w" "w \<noteq> []"
    and m: "first_truthy [sv_body rq ''message'', sv_query rq ''message''] = m" "m \<noteq> []"
    and s64: "trim (first_truthy [sv_body rq ''signature'', sv_body rq ''sig'',
                sv_query rq ''signature'', sv_query rq ''sig'']) = s64"
    and s58: "trim (first_truthy [sv_body rq ''signatureBase58'',
                sv_query rq ''signatureBase58'']) = s58"
    and sig: "s64 \<noteq> [] \<and> buffer_base64 x s64 = Inr sg \<and> enc = ''base64'' \<or>
              s64 = [] \<and> s58 \<noteq> [] \<and> bs58_decode x s58 = Inr sg \<and> enc = ''base58''"
    and len: "64 \<le> length sg"
    and pk: "bs58_decode x w = Inr pk"
    and v: "nacl_verify x (utf8 x m) sg pk = Inr True"
  from cookie have c1: "sv_nonce_cookie rq = None \<or> sv_nonce_cookie rq = Some [] \<or>
      (sv_nonce_cookie rq = Some c \<and> jwt_verify x c t1 = Inl e1)"
    and c2: "sv_nonce_cookie rq = None \<or> sv_nonce_cookie rq = Some [] \<or>
      (sv_nonce_cookie rq = Some c \<and> jwt_verify x c t2 = Inl e2)"
    by blast+
  note first = srv_verify_accepts_fields [OF c1 w m s64 s58 sig len pk v]
  note again = srv_verify_accepts_fields [OF c2 w m s64 s58 sig len pk v]
  show "srv_post_verify x t1 jti1 uid1 wid1 dbs1 rq =
           (\<lparr>status = 200,
             body = JVerified (srv_auth_token x t1 jti1 uid1 wid1) uid1 wid1 enc dbs1
                      (toISOString x (t1 + 30 * 24 * 60 * 60 * 1000)),
             cookie_ops = [ClearCookie ''nonce'',
                           SetCookie ''auth'' (srv_auth_token x t1 jti1 uid1 wid1)
                             (30 * 24 * 60 * 60 * 1000)]\<rparr>,
            [(utf8 x m, sg, pk)]) \<and>
         srv_auth_token x t1 jti1 uid1 wid1 =
           jwt_sign x [(''sub'', uid1), (''wid'', wid1), (''t'', ''auth''), (''jti'', jti1)]
             (30 * 24 * 3600) t1 \<and>
         status (fst (srv_post_verify x t2 jti2 uid2 wid2 dbs2 rq)) = 200 \<and>
         snd (srv_post_verify x t2 jti2 uid2 wid2 dbs2 rq) = [(utf8 x m, sg, pk)]"
    by (simp add: first again srv_auth_token_def)
qed

lemma demo_sreq_fields [simp]:
  "sv_body (demo_sreq sg m) ''walletAddress'' = Some demo_addr"
  "sv_body (demo_sreq sg m) ''address'' = None" "sv_body (demo_sreq sg m) ''wallet'' = None"
  "sv_body (demo_sreq sg m) ''message'' = Some m"
  "sv_body (demo_sreq sg m) ''signature'' = None" "sv_body (demo_sreq sg m) ''sig'' = None"
  "sv_body (demo_sreq sg m) ''signatureBase58'' = Some sg"
  "sv_query (demo_sreq sg m) = (\<lambda>_. None)" "sv_nonce_cookie (demo_sreq sg m) = None"
  by (simp_all add: demo_sreq_def)

lemma demo_sreq_stale_fields [simp]:
  "sv_body (demo_sreq_stale sg m) = sv_body (demo_sreq sg m)"
  "sv_query (demo_sreq_stale sg m) = (\<lambda>_. None)"
  "sv_nonce_cookie (demo_sreq_stale sg m) = Some ''stale''"
  by (simp_all add: demo_sreq_stale_def)

lemma demo_sreq64_fields [simp]:
  "sv_body (demo_sreq64 sg m) ''walletAddress'' = Some demo_addr"
  "sv_body (demo_sreq64 sg m) ''address'' = None" "sv_body (demo_sreq64 sg m) ''wallet'' = None"
  "sv_body (demo_sreq64 sg m) ''message'' = Some m"
  "sv_body (demo_sreq64 sg m) ''signature'' = Some sg" "sv_body (demo_sreq64 sg m) ''sig'' = None"
  "sv_body (demo_sreq64 sg m) ''signatureBase58'' = None"
  "sv_query (demo_sreq64 sg m) = (\<lambda>_. None)" "sv_nonce_cookie (demo_sreq64 sg m) = None"
  by (simp_all add: demo_sreq64_def)

lemma demo_sig_zero64:
  "demo_buffer_base64 sig_zero64 = Inr (replicate 64 0)" "trim sig_zero64 = sig_zero64"
  "sig_zero64 \<noteq> []"
  by code_simp+

theorem srv_body_message_accepted_witness:
  "sv_nonce_cookie (demo_sreq sig_zero ''I pick this text'') = None \<and>
   sv_body (demo_sreq sig_zero ''I pick this text'') ''message'' = Some ''I pick this text'' \<and>
   srv_post_verify demo_ext 1000 ''j1'' ''u1'' ''w1'' ''skipped''
       (demo_sreq sig_zero ''I pick this text'') =
     (\<lparr>status = 200,
       body = JVerified (srv_auth_token demo_ext 1000 ''j1'' ''u1'' ''w1'') ''u1'' ''w1''
                ''base58'' ''skipped'' (toISOString demo_ext (1000 + 30 * 24 * 60 * 60 * 1000)),
       cookie_ops = [ClearCookie ''nonce'',
                     SetCookie ''auth'' (srv_auth_token demo_ext 1000 ''j1'' ''u1'' ''w1'')
                       (30 * 24 * 60 * 60 * 1000)]\<rparr>,
      [(utf8 demo_ext ''I pick this text'', replicate 64 0, replicate 32 0)]) \<and>
   status (fst (srv_post_verify demo_ext 900000000 ''j2'' ''u2'' ''w2'' ''skipped''
                  (demo_sreq sig_zero ''I pick this text''))) = 200 \<and>
   sv_nonce_cookie (demo_sreq_stale sig_zero ''I pick this text'') = Some ''stale'' \<and>
   jwt_verify demo_ext ''stale'' 1000 = Inl ''jwt malformed'' \<and>
   status (fst (srv_post_verify demo_ext 1000 ''j1'' ''u1'' ''w1'' ''skipped''
                  (demo_sreq_stale sig_zero ''I pick this text''))) = 200 \<and>
   sv_body (demo_sreq64 sig_zero64 ''I pick this text'') ''signature'' = Some sig_zero64 \<and>
   snd (srv_post_verify demo_ext 1000 ''j1'' ''u1'' ''w1'' ''skipped''
          (demo_sreq64 sig_zero64 ''I pick this text'')) =
     [(utf8 demo_ext ''I pick this text'', replicate 64 0, replicate 32 0)] \<and>
   status (fst (srv_post_verify demo_ext 1000 ''j1'' ''u1'' ''w1'' ''skipped''
                  (demo_sreq64 sig_zero64 ''I pick this text''))) = 200"
proof -
  let ?m = "''I pick this text''"
  let ?rq = "demo_sreq sig_zero ?m"
  let ?rs = "demo_sreq_stale sig_zero ?m"
  let ?r64 = "demo_sreq64 sig_zero64 ?m"
  have k: "demo_bs58 demo_addr = Inr (replicate 32 0)"
    "demo_bs58 sig_zero = Inr (replicate 64 0)"
    "demo_verify (utf8 demo_ext ?m) (replicate 64 0) (replicate 32 0) = Inr True"
    "64 \<le> length (replicate 64 (0::8 word))"
    by (simp_all add: demo_eval)
  from srv_body_message_accepted
         [where x = demo_ext and rq = ?rq and ?t1.0 = 1000 and ?t2.0 = 900000000
            and w = demo_addr and m = ?m and ?s64.0 = "[]" and ?s58.0 = sig_zero
            and sg = "replicate 64 0" and enc = "''base58''"
            and pk = "replicate 32 0" and ?jti1.0 = "''j1''" and ?uid1.0 = "''u1''"
            and ?wid1.0 = "''w1''" and ?dbs1.0 = "''skipped''" and ?jti2.0 = "''j2''"
            and ?uid2.0 = "''u2''" and ?wid2.0 = "''w2''" and ?dbs2.0 = "''skipped''"]
  have plain: "srv_post_verify demo_ext 1000 ''j1'' ''u1'' ''w1'' ''skipped'' ?rq =
     (\<lparr>status = 200,
       body = JVerified (srv_auth_token demo_ext 1000 ''j1'' ''u1'' ''w1'') ''u1'' ''w1''
                ''base58'' ''skipped'' (toISOString demo_ext (1000 + 30 * 24 * 60 * 60 * 1000)),
       cookie_ops = [ClearCookie ''nonce'',
                     SetCookie ''auth'' (srv_auth_token demo_ext 1000 ''j1'' ''u1'' ''w1'')
                       (30 * 24 * 60 * 60 * 1000)]\<rparr>,
      [(utf8 demo_ext ?m, replicate 64 0, replicate 32 0)])"
    "status (fst (srv_post_verify demo_ext 900000000 ''j2'' ''u2'' ''w2'' ''skipped'' ?rq)) = 200"
    using k by (simp_all add: demo_eval)
  from srv_body_message_accepted
         [where x = demo_ext and rq = ?rs and ?t1.0 = 1000 and ?t2.0 = 1000
            and c = "''stale''" and ?e1.0 = "''jwt malformed''" and ?e2.0 = "''jwt malformed''"
            and w = demo_addr and m = ?m and ?s64.0 = "[]" and ?s58.0 = sig_zero
            and sg = "replicate 64 0" and enc = "''base58''"
            and pk = "replicate 32 0" and ?jti1.0 = "''j1''" and ?uid1.0 = "''u1''"
            and ?wid1.0 = "''w1''" and ?dbs1.0 = "''skipped''" and ?jti2.0 = "''j1''"
            and ?uid2.0 = "''u1''" and ?wid2.0 = "''w1''" and ?dbs2.0 = "''skipped''"]
  have stale: "status (fst (srv_post_verify demo_ext 1000 ''j1'' ''u1'' ''w1'' ''skipped'' ?rs)) = 200"
    using k by (simp add: demo_eval)
  from srv_body_message_accepted
         [where x = demo_ext and rq = ?r64 and ?t1.0 = 1000 and ?t2.0 = 1000
            and w = demo_addr and m = ?m and ?s64.0 = sig_zero64 and ?s58.0 = "[]"
            and sg = "replicate 64 0" and enc = "''base64''"
            and pk = "replicate 32 0" and ?jti1.0 = "''j1''" and ?uid1.0 = "''u1''"
            and ?wid1.0 = "''w1''" and ?dbs1.0 = "''skipped''" and ?jti2.0 = "''j1''"
            and ?uid2.0 = "''u1''" and ?wid2.0 = "''w1''" and ?dbs2.0 = "''skipped''"]
  have b64: "status (fst (srv_post_verify demo_ext 1000 ''j1'' ''u1'' ''w1'' ''skipped'' ?r64)) = 200"
    "snd (srv_post_verify demo_ext 1000 ''j1'' ''u1'' ''w1'' ''skipped'' ?r64) =
       [(utf8 demo_ext ?m, replicate 64 0, replicate 32 0)]"
    using k by (simp_all add: demo_eval demo_sig_zero64)
  show ?thesis
    using plain stale b64 by simp
qed

subsection \<open>The length of the signature\<close>

lemma helper58_calls:
  assumes "publicKey x a = Inr pub" and "bs58_decode x s = Inr sig"
  shows "snd (verifySolanaSignatureBase58 x a msg s) = [(utf8 x msg, sig, pub)]"
  using assms by (simp add: verifySolanaSignatureBase58_def Let_def)

lemma helper64_calls:
  assumes "publicKey x a = Inr pub" and "atob_bytes x s = Inr sig"
  shows "snd (verifySolanaSignatureBase64 x a msg s) = [(utf8 x msg, sig, pub)]"
  using assms by (simp add: verifySolanaSignatureBase64_def Let_def)

lemma demo_try_short:
  "try_signatures demo_ext demo_addr n None (Some sig_short) =
     (False, [(utf8 demo_ext n, [0], replicate 32 0)])"
  by (simp add: try_signatures_def verifySolanaSignatureBase58_def truthy_def demo_eval Let_def)

text \<open>
  C7, as stated, fails: the base58 helper of \<^verbatim>\<open>utils/solana.ts\<close> passes a signature of
  one byte to the verifier, and the verify route of \<^verbatim>\<open>routes/auth.ts\<close>, which calls the
  helper, answers with its invalid-signature reply after that call.
\<close>

theorem signature_length_counterexample:
  "verifySolanaSignatureBase58 demo_ext demo_addr ''n1'' sig_short =
     (Inl ''bad signature size'', [(utf8 demo_ext ''n1'', [0], replicate 32 0)]) \<and>
   r_post_verify demo_cfg demo_ext 1000 (demo_rreq sig_short ''n1'') demo_db =
     (reply 400 (JError ''invalid signature''), demo_db,
      [(utf8 demo_ext ''n1'', [0], replicate 32 0)])"
  by (simp add: verifySolanaSignatureBase58_def demo_eval r_post_verify_def hasAll_def truthy_def
        demo_db_def demo_try_short Let_def)

text \<open>
  C7, amended. In the verify route of \<^verbatim>\<open>server.ts\<close> a decoded signature shorter than 64
  bytes is answered 400 \<^verbatim>\<open>Signature length invalid\<close> with no call of the verifier, and
  every signature the route passes to the verifier has at least 64 bytes. The helpers
  \<^verbatim>\<open>verifySolanaSignatureBase58\<close> and \<^verbatim>\<open>verifySolanaSignatureBase64\<close> make no length
  check: whatever the signature decodes to is passed to the verifier.
\<close>

theorem short_signature_rejected:
  "(srv_walletAddress rq \<noteq> [] \<and> srv_message x t rq (srv_walletAddress rq) = Inr m \<and>
    srv_decode_signature x rq = Inr (sg, enc) \<and> length sg < 64
      \<longrightarrow> srv_post_verify x t jti uid wid dbs rq =
            (reply 400 (JError ''Signature length invalid''), [])) \<and>
   (\<forall>c \<in> set (snd (srv_post_verify x t jti uid wid dbs rq)). 64 \<le> length (fst (snd c))) \<and>
   (publicKey x a = Inr pub \<and> bs58_decode x s = Inr sig
      \<longrightarrow> snd (verifySolanaSignatureBase58 x a msg s) = [(utf8 x msg, sig, pub)]) \<and>
   (publicKey x a = Inr pub \<and> atob_bytes x s' = Inr sig'
      \<longrightarrow> snd (verifySolanaSignatureBase64 x a msg s') = [(utf8 x msg, sig', pub)])"
  using srv_verify_short [of rq x t m sg enc jti uid wid dbs]
        srv_verify_calls [of _ x t jti uid wid dbs rq]
        helper58_calls [of x a pub s sig msg] helper64_calls [of x a pub s' sig' msg]
  by blast

theorem short_signature_rejected_witness:
  "srv_post_verify demo_ext 1000 ''j'' ''u'' ''w'' ''skipped'' (demo_sreq sig_short ''hello'') =
     (reply 400 (JError ''Signature length invalid''), []) \<and>
   (utf8 demo_ext ''hello'', replicate 64 0, replicate 32 0) \<in>
     set (snd (srv_post_verify demo_ext 1000 ''j'' ''u'' ''w'' ''skipped'' (demo_sreq sig_zero ''hello''))) \<and>
   64 \<le> length (fst (snd (utf8 demo_ext ''hello'', replicate 64 (0::8 word), replicate 32 (0::8 word)))) \<and>
   snd (verifySolanaSignatureBase58 demo_ext demo_addr ''n1'' sig_short) =
     [(utf8 demo_ext ''n1'', [0], replicate 32 0)] \<and>
   snd (verifySolanaSignatureBase64 demo_ext demo_addr ''n1'' sig_short64) =
     [(utf8 demo_ext ''n1'', [0], replicate 32 0)]"
proof -
  let ?short = "demo_sreq sig_short ''hello''"
  let ?good = "demo_sreq sig_zero ''hello''"
  let ?call = "(utf8 demo_ext ''hello'', replicate 64 (0::8 word), replicate 32 (0::8 word))"
  have h: "demo_addr \<noteq> []"
    "srv_message demo_ext 1000 ?short demo_addr = Inr ''hello''"
    "srv_decode_signature demo_ext ?short = Inr ([0], ''base58'')"
    "srv_message demo_ext 1000 ?good demo_addr = Inr ''hello''"
    "srv_decode_signature demo_ext ?good = Inr (replicate 64 0, ''base58'')"
    by (simp_all add: demo_sreq_message demo_sreq_decode demo_eval)
  have good: "snd (srv_post_verify demo_ext 1000 ''j'' ''u'' ''w'' ''skipped'' ?good) = [?call]"
    by (simp add: srv_verify_accepts [where m = "''hello''" and sg = "replicate 64 0"
                    and enc = "''base58''" and pk = "replicate 32 0"] h demo_eval)
  have k: "demo_publicKey demo_addr = Inr (replicate 32 0)" "demo_bs58 sig_short = Inr [0]"
    "demo_atob sig_short64 = Inr [0]"
    by (simp_all add: demo_eval demo_sig_short64)
  from short_signature_rejected
         [where rq = ?short and x = demo_ext and t = 1000 and m = "''hello''" and sg = "[0]"
            and enc = "''base58''" and jti = "''j''" and uid = "''u''" and wid = "''w''"
            and dbs = "''skipped''" and a = demo_addr and pub = "replicate 32 0"
            and s = sig_short and sig = "[0]" and msg = "''n1''"
            and s' = sig_short64 and sig' = "[0]"]
  have part1: "srv_post_verify demo_ext 1000 ''j'' ''u'' ''w'' ''skipped'' ?short =
                 (reply 400 (JError ''Signature length invalid''), [])"
    and part3: "snd (verifySolanaSignatureBase58 demo_ext demo_addr ''n1'' sig_short) =
                  [(utf8 demo_ext ''n1'', [0], replicate 32 0)]"
    and part4: "snd (verifySolanaSignatureBase64 demo_ext demo_addr ''n1'' sig_short64) =
                  [(utf8 demo_ext ''n1'', [0], replicate 32 0)]"
    using h k by auto
  from short_signature_rejected
         [where rq = ?good and x = demo_ext and t = 1000 and jti = "''j''" and uid = "''u''"
            and wid = "''w''" and dbs = "''skipped''"]
  have part2: "\<forall>c \<in> set (snd (srv_post_verify demo_ext 1000 ''j'' ''u'' ''w'' ''skipped'' ?good)).
                 64 \<le> length (fst (snd c))"
    by blast
  have mem: "?call \<in> set (snd (srv_post_verify demo_ext 1000 ''j'' ''u'' ''w'' ''skipped'' ?good))"
    by (simp add: good)
  from part2 mem have "64 \<le> length (fst (snd ?call))"
    by blast
  with part1 part3 part4 mem show ?thesis
    by blast
qed

subsection \<open>One challenge per address\<close>

lemma held_notin: "k \<notin> fst ` set al \<Longrightarrow> held al k = 0"
  by (induction al) (auto simp add: held_def)

lemma held_distinct: "distinct (map fst al) \<Longrightarrow> held al k \<le> 1"
proof (induction al)
  case Nil
  then show ?case by (simp add: held_def)
next
  case (Cons kv al)
  show ?case
  proof (cases "fst kv = k")
    case True
    with Cons.prems have "k \<notin> fst ` set al" by auto
    then have "held al k = 0" by (rule held_notin)
    with True show ?thesis by (simp add: held_def)
  next
    case False
    with Cons show ?thesis by (simp add: held_def)
  qed
qed

lemma held_present:
  assumes "distinct (map fst al)" and "map_of al k = Some v"
  shows "held al k = 1"
proof -
  from assms(2) have "k \<in> fst ` set al"
    by (metis domI dom_map_of_conv_image_fst)
  then have "held al k \<noteq> 0"
    by (induction al) (auto simp add: held_def)
  with held_distinct [OF assms(1), of k] show ?thesis by simp
qed

lemma mem_post_nonce_distinct:
  "distinct (map fst (nonces st)) \<Longrightarrow>
     distinct (map fst (nonces (snd (mem_post_nonce x now rnd req st))))"
  by (auto simp add: mem_post_nonce_def mem_issue_def Let_def distinct_update
           split: sum.splits option.splits)

lemma mem_post_verify_distinct:
  "distinct (map fst (nonces st)) \<Longrightarrow>
     distinct (map fst (nonces (snd (mem_post_verify x now uid wid req st))))"
  by (auto simp add: mem_post_verify_def Let_def split_beta distinct_delete
           split: sum.splits option.splits)

lemma mem_run_distinct:
  "distinct (map fst (nonces st)) \<Longrightarrow> distinct (map fst (nonces (mem_run x ops st)))"
proof (induction ops arbitrary: st)
  case Nil
  then show ?case by simp
next
  case (Cons op ops)
  have "distinct (map fst (nonces (mem_step x op st)))"
    using Cons.prems
    by (cases op) (simp_all add: mem_post_nonce_distinct mem_post_verify_distinct)
  then show ?case
    by (simp add: Cons.IH)
qed

lemma createAndStoreNonce_distinct:
  "distinct (map fst (db_sessions db)) \<Longrightarrow>
     distinct (map fst (db_sessions (snd (createAndStoreNonce now hex a db))))"
  by (simp add: createAndStoreNonce_def Let_def distinct_update split: option.splits)

lemma r_nonce_distinct:
  assumes "distinct (map fst (db_sessions db))"
  shows "distinct (map fst (db_sessions (snd (r_get_nonce now hex q db))))"
    and "distinct (map fst (db_sessions (snd (r_post_nonce now hex q db))))"
  using assms
  by (simp_all add: r_get_nonce_def r_post_nonce_def Let_def split_beta
        createAndStoreNonce_distinct)

lemma r_post_verify_distinct:
  "distinct (map fst (db_sessions db)) \<Longrightarrow>
     distinct (map fst (db_sessions (fst (snd (r_post_verify cfg x now req db)))))"
  by (auto simp add: r_post_verify_def Let_def split_beta distinct_delete
           split: sum.splits option.splits)

lemma db_run_distinct:
  "distinct (map fst (db_sessions db)) \<Longrightarrow>
     distinct (map fst (db_sessions (db_run cfg x ops db)))"
proof (induction ops arbitrary: db)
  case Nil
  then show ?case by simp
next
  case (Cons op ops)
  have "distinct (map fst (db_sessions (db_step cfg x op db)))"
    using Cons.prems
    by (cases op) (simp_all add: r_nonce_distinct r_post_verify_distinct)
  then show ?case
    by (simp add: Cons.IH)
qed

lemma mem_post_nonce_returned:
  assumes "fst (mem_post_nonce x now rnd req st) = reply 200 (JNonce n)"
    and "nonce_req_address req = Some a"
  shows "map_option nonce (map_of (nonces (snd (mem_post_nonce x now rnd req st))) a) = Some n"
  using assms
  by (auto simp add: mem_post_nonce_def mem_issue_def Let_def reply_def update_conv'
           split: if_splits sum.splits option.splits)

text \<open>
  C5. Whatever sequence of nonce and verify requests \<^verbatim>\<open>auth-nonce.ts\<close> has served since
  the module was loaded with an empty map, its map holds at most one challenge record per address, live or
  not; and after a nonce request that was answered with a nonce it holds exactly one for
  the address, the one whose nonce was returned (the live one, unchanged, or the new one in
  its place). The same holds of the session table of \<^verbatim>\<open>routes/auth.ts\<close>, whose primary
  key is the session id: at most one row per id after any sequence of requests, and after
  \<^verbatim>\<open>createAndStoreNonce\<close> exactly one row \<^verbatim>\<open>nonce:<address>\<close>, holding the new nonce.
  \<^verbatim>\<open>server.ts\<close> has no store of its own: every issue sets the one cookie named
  \<^verbatim>\<open>nonce\<close> anew.
\<close>

theorem at_most_one_challenge_per_address:
  "(nonces st0 = [] \<longrightarrow> held (nonces (mem_run x ops st0)) a \<le> 1) \<and>
   (nonces st0 = [] \<and>
    fst (mem_post_nonce x now rnd req (mem_run x ops st0)) = reply 200 (JNonce n) \<and>
    nonce_req_address req = Some a
      \<longrightarrow> held (nonces (snd (mem_post_nonce x now rnd req (mem_run x ops st0)))) a = 1 \<and>
          map_option nonce
            (map_of (nonces (snd (mem_post_nonce x now rnd req (mem_run x ops st0)))) a) =
            Some n) \<and>
   (distinct (map fst (db_sessions db))
      \<longrightarrow> held (db_sessions (db_run cfg x dops db)) k \<le> 1 \<and>
          held (db_sessions (snd (createAndStoreNonce now hex b (db_run cfg x dops db))))
            (''nonce:'' @ b) = 1 \<and>
          map_option jwtId
            (map_of (db_sessions (snd (createAndStoreNonce now hex b (db_run cfg x dops db))))
               (''nonce:'' @ b)) =
            Some (fst (createAndStoreNonce now hex b (db_run cfg x dops db)))) \<and>
   (trim (js_String (js_or q (Some []))) = w \<and> w \<noteq> []
      \<longrightarrow> cookie_ops (srv_get_nonce cfg x now uuid jti q) =
            [SetCookie ''nonce''
               (jwt_sign x [(''t'', ''nonce''), (''wallet'', w), (''nonce'', uuid),
                            (''msg'', srv_challenge_message cfg x now w uuid), (''jti'', jti)]
                  (5 * 60) now) (5 * 60 * 1000)])"
proof (intro conjI impI; (elim conjE)?)
  {
    assume "nonces st0 = []"
    then have init: "distinct (map fst (nonces st0))"
      by simp
    show "held (nonces (mem_run x ops st0)) a \<le> 1"
      by (rule held_distinct [OF mem_run_distinct [OF init]])
  }
  {
    assume "nonces st0 = []"
      and r: "fst (mem_post_nonce x now rnd req (mem_run x ops st0)) = reply 200 (JNonce n)"
      and addr: "nonce_req_address req = Some a"
    then have init: "distinct (map fst (nonces st0))"
      by simp
    let ?st' = "snd (mem_post_nonce x now rnd req (mem_run x ops st0))"
    show ret: "map_option nonce (map_of (nonces ?st') a) = Some n"
      by (rule mem_post_nonce_returned [OF r addr])
    then obtain rec where "map_of (nonces ?st') a = Some rec"
      by auto
    moreover have "distinct (map fst (nonces ?st'))"
      by (rule mem_post_nonce_distinct [OF mem_run_distinct [OF init]])
    ultimately show "held (nonces ?st') a = 1"
      by (simp add: held_present)
  }
  {
    assume d: "distinct (map fst (db_sessions db))"
    let ?db = "db_run cfg x dops db"
    let ?db' = "snd (createAndStoreNonce now hex b ?db)"
    have d1: "distinct (map fst (db_sessions ?db))"
      by (rule db_run_distinct [OF d])
    show "held (db_sessions ?db) k \<le> 1"
      by (rule held_distinct [OF d1])
    show stored: "map_option jwtId (map_of (db_sessions ?db') (''nonce:'' @ b)) =
            Some (fst (createAndStoreNonce now hex b ?db))"
      by (rule createAndStoreNonce_stored)
    then obtain s where "map_of (db_sessions ?db') (''nonce:'' @ b) = Some s"
      by auto
    moreover have "distinct (map fst (db_sessions ?db'))"
      by (rule createAndStoreNonce_distinct [OF d1])
    ultimately show "held (db_sessions ?db') (''nonce:'' @ b) = 1"
      by (simp add: held_present)
  }
  {
    assume "trim (js_String (js_or q (Some []))) = w" and "w \<noteq> []"
    then show "cookie_ops (srv_get_nonce cfg x now uuid jti q) =
            [SetCookie ''nonce''
               (jwt_sign x [(''t'', ''nonce''), (''wallet'', w), (''nonce'', uuid),
                            (''msg'', srv_challenge_message cfg x now w uuid), (''jti'', jti)]
                  (5 * 60) now) (5 * 60 * 1000)]"
      by (simp add: srv_get_nonce_any)
  }
qed

theorem at_most_one_challenge_per_address_witness:
  "nonces mem_init = [] \<and>
   fst (mem_post_nonce demo_ext 2000 ''n2'' (demo_nreq demo_addr)
          (mem_run demo_ext [MemNonce 1000 ''n1'' (demo_nreq demo_addr)] mem_init)) =
     reply 200 (JNonce ''n1'') \<and>
   held (nonces (snd (mem_post_nonce demo_ext 2000 ''n2'' (demo_nreq demo_addr)
          (mem_run demo_ext [MemNonce 1000 ''n1'' (demo_nreq demo_addr)] mem_init)))) demo_addr = 1 \<and>
   distinct (map fst (db_sessions demo_db)) \<and>
   held (db_sessions (snd (createAndStoreNonce 2000 ''ab'' demo_addr
          (db_run demo_cfg demo_ext [DbGetNonce 1000 ''cd'' (Some demo_addr)] demo_db))))
     (''nonce:'' @ demo_addr) = 1 \<and>
   length (cookie_ops (srv_get_nonce demo_cfg demo_ext 2000 ''uuid-2'' ''j2'' (Some demo_addr))) = 1"
proof -
  let ?st1 = "\<lparr>nonces = [(demo_addr, \<lparr>nonce = ''n1'', expiresAt = 301000\<rparr>)],
               wallets = [], users = []\<rparr>"
  have a: "nonce_req_address (demo_nreq demo_addr) = Some demo_addr"
    by (simp add: nonce_req_address_def demo_nreq_def js_nullish_def demo_eval)
  have run: "mem_run demo_ext [MemNonce 1000 ''n1'' (demo_nreq demo_addr)] mem_init = ?st1"
    by (simp add: mem_post_nonce_def a truthy_def demo_eval mem_init_def mem_issue_def
          NONCE_TTL_MS_def)
  have second: "fst (mem_post_nonce demo_ext 2000 ''n2'' (demo_nreq demo_addr)
                  (mem_run demo_ext [MemNonce 1000 ''n1'' (demo_nreq demo_addr)] mem_init)) =
                reply 200 (JNonce ''n1'')"
    unfolding run by (simp add: mem_post_nonce_def a truthy_def demo_eval)
  have d: "distinct (map fst (db_sessions demo_db))"
    by (simp add: demo_db_def)
  from at_most_one_challenge_per_address
         [where x = demo_ext and ops = "[MemNonce 1000 ''n1'' (demo_nreq demo_addr)]"
            and ?st0.0 = mem_init and a = demo_addr and now = 2000 and rnd = "''n2''" and req = "demo_nreq demo_addr"
            and n = "''n1''" and db = demo_db and cfg = demo_cfg
            and dops = "[DbGetNonce 1000 ''cd'' (Some demo_addr)]" and hex = "''ab''"
            and b = demo_addr and q = "Some demo_addr" and w = demo_addr and uuid = "''uuid-2''"
            and jti = "''j2''"]
  show ?thesis
    using a second d demo_q_addr(1) demo_addr_ne by (auto simp add: mem_init_def)
qed

end
